theory Spec2Isabelle
  imports Complex_Main "HOL-Library.Log_Nat" "HOL-Library.Char_ord" "HOL-Library.List_Lexorder"
    "HOL-Library.Multiset"
begin

section \<open>JavaScript numbers\<close>

text \<open>
  A JavaScript number is an IEEE 754 binary64 value.  Numbers that the program keeps
  whole (identifiers, durations in seconds, week offsets, days of the month) are modelled
  as \<open>int\<close>; negation, \<open>%\<close> and \<open>Math.abs\<close> are exact on them.  Every other operation
  returns its exact result rounded to the nearest value with a 53-bit significand, ties to
  even (\<open>fl\<close>): a division produces a fraction, and the sum or the product of two whole
  numbers is a whole number again, the exact one when that is below \<open>2 ^ 53\<close> in magnitude.
  The exponent range is not bounded: the quantities of this program (seconds, hours) are
  far from overflow and from the subnormal numbers.  The whole numbers read from a JSON
  text are taken to be numbers, that is, to have a 53-bit significand.
\<close>

definition rne :: "rat \<Rightarrow> int" where
  "rne x = (let f = \<lfloor>x\<rfloor>; r = x - of_int f in
     if r < 1 / 2 then f else if 1 / 2 < r then f + 1 else if even f then f else f + 1)"

text \<open>\<open>expo x\<close> is the binary exponent of a positive \<open>x\<close>: \<open>2 ^ expo x \<le> x < 2 ^ (expo x + 1)\<close>.\<close>

definition expo :: "rat \<Rightarrow> int" where
  "expo x = (let (p, q) = quotient_of x; d = bitlen p - bitlen q in
     if 2 powi d \<le> x then d else d - 1)"

definition fl :: "rat \<Rightarrow> rat" where
  "fl x = (if x = 0 then 0 else
     let e = expo \<bar>x\<bar> - 52 in of_int (rne (x / 2 powi e)) * 2 powi e)"

text \<open>\<open>a / b\<close> and \<open>a * b\<close> on fractions.\<close>

definition fdiv :: "rat \<Rightarrow> rat \<Rightarrow> rat" where
  "fdiv a b = fl (a / b)"

definition fmul :: "rat \<Rightarrow> rat \<Rightarrow> rat" where
  "fmul a b = fl (a * b)"

text \<open>
  \<open>a + b\<close> and \<open>a * b\<close> on whole numbers.  The rounded result is a whole number (beyond
  \<open>2 ^ 53\<close> it is a multiple of a power of two), so the floor only changes its type.
\<close>

definition js_plus :: "int \<Rightarrow> int \<Rightarrow> int" where
  "js_plus a b = \<lfloor>fl (of_int (a + b))\<rfloor>"

definition js_times :: "int \<Rightarrow> int \<Rightarrow> int" where
  "js_times a b = \<lfloor>fl (of_int (a * b))\<rfloor>"

text \<open>
  \<open>Math.round\<close> returns the nearest integer, and of two equally near integers the one
  closer to plus infinity; \<open>Math.floor\<close> the greatest integer not above its argument.
\<close>

definition Math_round :: "rat \<Rightarrow> int" where
  "Math_round x = \<lfloor>x + 1 / 2\<rfloor>"

definition Math_floor :: "rat \<Rightarrow> int" where
  "Math_floor x = \<lfloor>x\<rfloor>"

text \<open>\<open>a % b\<close>: the remainder has the sign of the dividend.\<close>

definition js_rem :: "int \<Rightarrow> int \<Rightarrow> int" where
  "js_rem a b = sgn a * (\<bar>a\<bar> mod \<bar>b\<bar>)"

text \<open>
  Where a property may be missing the arithmetic can produce \<open>NaN\<close>; such a number is
  \<open>NaN\<close> or an integer.
\<close>

datatype number = NaN | Num int

fun add_num :: "number \<Rightarrow> number \<Rightarrow> number" where
  "add_num (Num a) (Num b) = Num (js_plus a b)"
| "add_num _ _ = NaN"

fun sub_num :: "number \<Rightarrow> number \<Rightarrow> number" where
  "sub_num (Num a) (Num b) = Num (js_plus a (- b))"
| "sub_num _ _ = NaN"

fun mul_num :: "number \<Rightarrow> number \<Rightarrow> number" where
  "mul_num (Num a) (Num b) = Num (js_times a b)"
| "mul_num _ _ = NaN"

fun abs_num :: "number \<Rightarrow> number" where
  "abs_num (Num a) = Num \<bar>a\<bar>"
| "abs_num NaN = NaN"

text \<open>\<open>Math.floor(d / n)\<close> and \<open>d % n\<close> for an integer constant \<open>n\<close>.\<close>

fun floor_div_num :: "number \<Rightarrow> int \<Rightarrow> number" where
  "floor_div_num (Num d) n = Num (Math_floor (fdiv (of_int d) (of_int n)))"
| "floor_div_num NaN n = NaN"

fun rem_num :: "number \<Rightarrow> int \<Rightarrow> number" where
  "rem_num (Num d) n = Num (js_rem d n)"
| "rem_num NaN n = NaN"

section \<open>Values read from the remote service's JSON\<close>

text \<open>A property of a parsed JSON object is absent (\<open>undefined\<close>), \<open>null\<close> or a value.\<close>

datatype 'a field = Undefined | Null | Val 'a

text \<open>\<open>ToNumber\<close>: \<open>undefined\<close> is \<open>NaN\<close>, \<open>null\<close> is 0.\<close>

fun to_number :: "int field \<Rightarrow> number" where
  "to_number Undefined = NaN"
| "to_number Null = Num 0"
| "to_number (Val d) = Num d"

text \<open>\<open>x || 0\<close> on a number and \<open>x || dflt\<close> on a string: the falsy values give the default.\<close>

fun or_zero :: "int field \<Rightarrow> int" where
  "or_zero (Val d) = (if d = 0 then 0 else d)"
| "or_zero _ = 0"

fun or_else :: "string field \<Rightarrow> string \<Rightarrow> string" where
  "or_else (Val s) dflt = (if s = [] then dflt else s)"
| "or_else _ dflt = dflt"

text \<open>A property inside a template literal.\<close>

fun template :: "string field \<Rightarrow> string" where
  "template Undefined = ''undefined''"
| "template Null = ''null''"
| "template (Val s) = s"

record TimeEntry =
  id_n :: int
  description :: "string field"
  duration :: "int field"
  start :: "string field"
  project_name :: "string field"

record Project =
  p_id :: int
  p_name :: string

section \<open>Exceptions\<close>

datatype ErrorCode = InvalidParams | InvalidRequest | InternalError | MethodNotFound

text \<open>
  What the program throws or lets through: a plain \<open>Error\<close>, the runtime's \<open>TypeError\<close>
  and \<open>RangeError\<close>, the validation library's \<open>ZodError\<close> with the messages of its issues,
  the HTTP library's error with the response status (if there was a response) and its
  message, and the protocol's \<open>McpError\<close>.
\<close>

datatype exn =
    Error string
  | TypeError string
  | RangeError string
  | ZodError "string list"
  | AxiosError "int option" string
  | McpError ErrorCode string

fun code_number :: "ErrorCode \<Rightarrow> int" where
  "code_number InvalidParams = - 32602"
| "code_number InvalidRequest = - 32600"
| "code_number InternalError = - 32603"
| "code_number MethodNotFound = - 32601"

fun join :: "string \<Rightarrow> string list \<Rightarrow> string" where
  "join sep [] = []"
| "join sep [x] = x"
| "join sep (x # y # ys) = x @ sep @ join sep (y # ys)"

definition nl :: string where
  "nl = [CHR 0x0A]"

definition dq :: string where
  "dq = [CHR 0x22]"

section \<open>Dates\<close>

text \<open>
  A \<open>Date\<close> holds a time value, the milliseconds since 1 January 1970 UTC, which is at
  most 8.64e15 in magnitude; or it is an invalid date, whose time value is \<open>NaN\<close>.  The
  program reads and writes dates in local time (\<open>getDay\<close>, \<open>getDate\<close>, \<open>setDate\<close>,
  \<open>setHours\<close>): a getter converts the time value to local time; a setter builds a local
  time, converts it back, and makes the date invalid when the result is out of range.

  What the JavaScript runtime supplies is a parameter: the time zone, as the conversion
  \<open>LocalTime\<close> of a time value to local time and the conversion \<open>UTC\<close> of a local time to a
  time value (the runtime chooses the time value of a local time that does not exist,
  such as one in the hour skipped when daylight saving begins, and of one that exists
  twice); the calendar, as the day of the month of a local time; the ISO 8601 string of a
  time value; the decimal rendering of a number; the lower-casing of a string; and the
  members of \<open>Object.prototype\<close>, as the string form of the member of a given name.
\<close>

datatype Date = Invalid_Date | Time int

record runtime =
  LocalTime :: "int \<Rightarrow> int"
  UTC :: "int \<Rightarrow> int"
  DateFromTime :: "int \<Rightarrow> int"
  ISOString :: "int \<Rightarrow> string"
  show_num :: "rat \<Rightarrow> string"
  toLowerCase :: "string \<Rightarrow> string"
  Object_prototype :: "string \<Rightarrow> string option"

definition msPerDay :: int where
  "msPerDay = 86400000"

definition Day :: "int \<Rightarrow> int" where
  "Day t = t div msPerDay"

definition TimeWithinDay :: "int \<Rightarrow> int" where
  "TimeWithinDay t = t mod msPerDay"

definition TimeClip :: "int \<Rightarrow> Date" where
  "TimeClip t = (if \<bar>t\<bar> \<le> 8640000000000000 then Time t else Invalid_Date)"

text \<open>1 January 1970 was a Thursday; Sunday is 0.  The getters of an invalid date give \<open>NaN\<close>.\<close>

fun getDay :: "runtime \<Rightarrow> Date \<Rightarrow> number" where
  "getDay rt (Time t) = Num ((Day (LocalTime rt t) + 4) mod 7)"
| "getDay rt Invalid_Date = NaN"

fun getDate :: "runtime \<Rightarrow> Date \<Rightarrow> number" where
  "getDate rt (Time t) = Num (DateFromTime rt (LocalTime rt t))"
| "getDate rt Invalid_Date = NaN"

text \<open>
  \<open>setDate(n)\<close> moves to day \<open>n\<close> of the current month of the local time, where \<open>n\<close> may
  lie outside the month: the new day number is that of the month's first day plus
  \<open>n - 1\<close>.  The local time of day is kept.  \<open>setHours(h, m, s, ms)\<close> keeps the local day
  and replaces the time of day.  An invalid date stays invalid, and \<open>setDate(NaN)\<close> makes
  the date invalid.
\<close>

fun setDate :: "runtime \<Rightarrow> Date \<Rightarrow> number \<Rightarrow> Date" where
  "setDate rt (Time t) (Num n) =
     (let l = LocalTime rt t;
          first = Day l - DateFromTime rt l + 1
      in TimeClip (UTC rt ((first + (n - 1)) * msPerDay + TimeWithinDay l)))"
| "setDate rt (Time t) NaN = Invalid_Date"
| "setDate rt Invalid_Date n = Invalid_Date"

fun setHours :: "runtime \<Rightarrow> Date \<Rightarrow> int \<Rightarrow> int \<Rightarrow> int \<Rightarrow> int \<Rightarrow> Date" where
  "setHours rt (Time t) h m s ms =
     TimeClip (UTC rt (Day (LocalTime rt t) * msPerDay + (h * 3600000 + m * 60000 + s * 1000 + ms)))"
| "setHours rt Invalid_Date h m s ms = Invalid_Date"

text \<open>\<open>toISOString\<close> throws on an invalid date.\<close>

fun toISOString :: "runtime \<Rightarrow> Date \<Rightarrow> exn + string" where
  "toISOString rt (Time t) = Inr (ISOString rt t)"
| "toISOString rt Invalid_Date = Inl (RangeError ''Invalid time value'')"

text \<open>The first lines of \<open>getWeeklyEntries\<close>: Monday and Sunday of the target week.\<close>

definition week_window :: "runtime \<Rightarrow> Date \<Rightarrow> int \<Rightarrow> Date \<times> Date" where
  "week_window rt today weekOffset =
     (let dayOfWeek = getDay rt today;
          daysToMonday = (if dayOfWeek = Num 0 then Num (- 6) else sub_num (Num 1) dayOfWeek);
          monday = setHours rt
                     (setDate rt today
                        (add_num (add_num (getDate rt today) daysToMonday)
                                 (mul_num (Num weekOffset) (Num 7))))
                     0 0 0 0;
          sunday = setHours rt (setDate rt monday (add_num (getDate rt monday) (Num 6))) 23 59 59 999
      in (monday, sunday))"

section \<open>The request handler's errors\<close>

text \<open>\<open>error.message || "An unexpected error occurred"\<close>\<close>

definition message_or_default :: "string \<Rightarrow> string" where
  "message_or_default m = (if m = [] then ''An unexpected error occurred'' else m)"

text \<open>
  The \<open>catch\<close> of the request handler.  The message of an \<open>McpError\<close> is, by its
  constructor, \<open>MCP error <code>: <message>\<close>.
\<close>

fun translate :: "runtime \<Rightarrow> exn \<Rightarrow> exn" where
  "translate rt (ZodError issues) =
     McpError InvalidParams (''Invalid parameters: '' @ join '', '' issues)"
| "translate rt (AxiosError status m) =
     (if status = Some 401
      then McpError InvalidRequest
             ''Invalid Toggl API key. Check your TOGGL_API_KEY environment variable.''
      else McpError InternalError (message_or_default m))"
| "translate rt (Error m) = McpError InternalError (message_or_default m)"
| "translate rt (TypeError m) = McpError InternalError (message_or_default m)"
| "translate rt (RangeError m) = McpError InternalError (message_or_default m)"
| "translate rt (McpError c m) =
     McpError InternalError
       (message_or_default (''MCP error '' @ show_num rt (of_int (code_number c)) @ '': '' @ m))"

section \<open>The remote service and the client\<close>

text \<open>
  The requests the client sends, and the remote service as the answers it gives: a
  failure (the response status, if any, and the error's message) or the response's data.
  A list the service returns may be \<open>null\<close>.  The answers are those the service gives
  during one tool call; how a request changes later answers is not modelled.
\<close>

datatype request =
    GetMe
  | GetCurrentTimeEntry
  | GetTimeEntries string string
  | GetProjects int
  | PostTimeEntry int string "int option" string
  | PatchStop int int
  | DeleteTimeEntry int int

type_synonym 'a response = "(int option \<times> string) + 'a"

record remote =
  r_me :: "int response"
  r_current :: "TimeEntry option response"
  r_entries :: "string \<Rightarrow> string \<Rightarrow> TimeEntry list option response"
  r_projects :: "int \<Rightarrow> Project list option response"
  r_create :: "int \<Rightarrow> string \<Rightarrow> int option \<Rightarrow> string \<Rightarrow> TimeEntry response"
  r_stop :: "int \<Rightarrow> int \<Rightarrow> TimeEntry response"
  r_delete :: "int \<Rightarrow> int \<Rightarrow> unit response"

text \<open>
  The client's state: the memoized workspace identifier, and the requests sent so far.
  An asynchronous method takes the state and returns its result, or the exception it
  throws, with the new state.  \<open>result\<close> is a step that does not touch the state.
\<close>

record TogglClient =
  workspaceId :: "int option"
  sent :: "request list"

type_synonym 'a async = "TogglClient \<Rightarrow> (exn + 'a) \<times> TogglClient"

definition return :: "'a \<Rightarrow> 'a async" where
  "return a c = (Inr a, c)"

definition throw :: "exn \<Rightarrow> 'a async" where
  "throw e c = (Inl e, c)"

definition result :: "exn + 'a \<Rightarrow> 'a async" where
  "result r c = (r, c)"

definition await :: "'a async \<Rightarrow> ('a \<Rightarrow> 'b async) \<Rightarrow> 'b async" where
  "await m f c = (case m c of (Inl e, c') \<Rightarrow> (Inl e, c') | (Inr a, c') \<Rightarrow> f a c')"

definition api :: "request \<Rightarrow> 'a response \<Rightarrow> 'a async" where
  "api rq resp c =
     ((case resp of Inl (status, m) \<Rightarrow> Inl (AxiosError status m) | Inr a \<Rightarrow> Inr a),
      c\<lparr>sent := sent c @ [rq]\<rparr>)"

definition getWorkspaceId :: "remote \<Rightarrow> int async" where
  "getWorkspaceId rm c =
     (let fetch = await (api GetMe (r_me rm)) (\<lambda>w c'. (Inr w, c'\<lparr>workspaceId := Some w\<rparr>))
      in case workspaceId c of
           None \<Rightarrow> fetch c
         | Some w \<Rightarrow> if w = 0 then fetch c else (Inr w, c))"

definition getCurrentEntry :: "remote \<Rightarrow> TimeEntry option async" where
  "getCurrentEntry rm = api GetCurrentTimeEntry (r_current rm)"

definition startTimer :: "runtime \<Rightarrow> remote \<Rightarrow> Date \<Rightarrow> string \<Rightarrow> int option \<Rightarrow> TimeEntry async" where
  "startTimer rt rm now descr projectId =
     await (getWorkspaceId rm) (\<lambda>w.
       await (result (toISOString rt now)) (\<lambda>started.
         api (PostTimeEntry w descr projectId started) (r_create rm w descr projectId started)))"

definition stopTimer :: "remote \<Rightarrow> TimeEntry async" where
  "stopTimer rm =
     await (getCurrentEntry rm) (\<lambda>current.
       case current of
         None \<Rightarrow> throw (Error ''No timer is currently running'')
       | Some cur \<Rightarrow>
           await (getWorkspaceId rm) (\<lambda>w.
             api (PatchStop w (id_n cur)) (r_stop rm w (id_n cur))))"

definition getTodayEntries :: "runtime \<Rightarrow> remote \<Rightarrow> Date \<Rightarrow> TimeEntry list option async" where
  "getTodayEntries rt rm now =
     await (getWorkspaceId rm) (\<lambda>w.
       let today = setHours rt now 0 0 0 0
       in await (result (toISOString rt today)) (\<lambda>start_date.
            await (result (toISOString rt now)) (\<lambda>end_date.
              api (GetTimeEntries start_date end_date) (r_entries rm start_date end_date))))"

definition getProjects :: "remote \<Rightarrow> Project list option async" where
  "getProjects rm =
     await (getWorkspaceId rm) (\<lambda>w. api (GetProjects w) (r_projects rm w))"

definition deleteEntry :: "runtime \<Rightarrow> remote \<Rightarrow> int \<Rightarrow> string async" where
  "deleteEntry rt rm entryId =
     await (getWorkspaceId rm) (\<lambda>w.
       await (api (DeleteTimeEntry w entryId) (r_delete rm w entryId)) (\<lambda>_.
         return (''Deleted entry '' @ show_num rt (of_int entryId))))"

definition getEntriesForDateRange ::
  "runtime \<Rightarrow> remote \<Rightarrow> Date \<Rightarrow> Date \<Rightarrow> TimeEntry list option async" where
  "getEntriesForDateRange rt rm startDate endDate =
     await (result (toISOString rt startDate)) (\<lambda>start_date.
       await (result (toISOString rt endDate)) (\<lambda>end_date.
         api (GetTimeEntries start_date end_date) (r_entries rm start_date end_date)))"

section \<open>The weekly aggregation\<close>

text \<open>
  An object is the list of its own properties in the order they were created.
  \<open>set_prop\<close> gives a property a value, creating it at the end when the object does not
  have it.
\<close>

type_synonym 'a object = "(string \<times> 'a) list"

fun set_prop :: "'a object \<Rightarrow> string \<Rightarrow> 'a \<Rightarrow> 'a object" where
  "set_prop [] k v = [(k, v)]"
| "set_prop ((k', v') # kvs) k v =
     (if k' = k then (k', v) # kvs else (k', v') # set_prop kvs k v)"

text \<open>
  The two records of totals start as \<open>{}\<close>, an object that inherits the members of
  \<open>Object.prototype\<close>.  A bucket holds a number of seconds, or a text: reading a key that
  the record does not have as its own but \<open>Object.prototype\<close> has (\<open>constructor\<close>,
  \<open>toString\<close>, ...) gives that member, a function, and adding a number to it makes the
  string of the function's text followed by the number's digits.

  \<open>add_to rt obj k v\<close> is the statement \<open>obj[k] = (obj[k] || 0) + v\<close>.  The assignment to
  the key \<open>__proto__\<close> runs the setter that \<open>Object.prototype\<close> has for it, which ignores a
  value that is not an object: no property is created.
\<close>

datatype bucket = Seconds int | Text string

definition add_to :: "runtime \<Rightarrow> bucket object \<Rightarrow> string \<Rightarrow> int \<Rightarrow> bucket object" where
  "add_to rt obj k v =
     (let old = (case map_of obj k of
                   Some own \<Rightarrow> Some own
                 | None \<Rightarrow> map_option Text (Object_prototype rt k));
          new = (case old of
                   None \<Rightarrow> Seconds (js_plus 0 v)
                 | Some (Seconds n) \<Rightarrow> Seconds (js_plus (if n = 0 then 0 else n) v)
                 | Some (Text s) \<Rightarrow>
                     if s = [] then Seconds (js_plus 0 v) else Text (s @ show_num rt (of_int v)))
      in if k = ''__proto__'' \<and> map_of obj k = None then obj else set_prop obj k new)"

text \<open>
  \<open>Object.entries\<close> enumerates the properties whose key is an array index (the decimal
  form of an integer below \<open>2 ^ 32 - 1\<close>) first, in ascending numeric order, and then the
  other properties in the order of their creation.
\<close>

definition is_digit :: "char \<Rightarrow> bool" where
  "is_digit c = (CHR ''0'' \<le> c \<and> c \<le> CHR ''9'')"

definition dec_val :: "string \<Rightarrow> nat" where
  "dec_val s = foldl (\<lambda>n c. 10 * n + (of_char c - 48)) 0 s"

definition is_array_index :: "string \<Rightarrow> bool" where
  "is_array_index s =
     (s \<noteq> [] \<and> list_all is_digit s \<and> (s = ''0'' \<or> hd s \<noteq> CHR ''0'') \<and> dec_val s < 2 ^ 32 - 1)"

definition Object_entries :: "'a object \<Rightarrow> (string \<times> 'a) list" where
  "Object_entries obj =
     sort_key (\<lambda>(k, v). dec_val k) (filter (\<lambda>(k, v). is_array_index k) obj) @
     filter (\<lambda>(k, v). \<not> is_array_index k) obj"

text \<open>\<open>Object.fromEntries\<close> sets the properties one after the other.\<close>

definition Object_fromEntries :: "(string \<times> 'a) list \<Rightarrow> 'a object" where
  "Object_fromEntries kvs = foldl (\<lambda>obj (k, v). set_prop obj k v) [] kvs"

text \<open>\<open>s.split('T')[0]\<close> and \<open>s.startsWith(p)\<close>\<close>

definition split_T_0 :: "string \<Rightarrow> string" where
  "split_T_0 s = takeWhile (\<lambda>c. c \<noteq> CHR ''T'') s"

definition startsWith :: "string \<Rightarrow> string \<Rightarrow> bool" where
  "startsWith s p = (take (length p) s = p)"

text \<open>
  \<open>Math.round(seconds / 3600 * 100) / 100\<close>, of a number of seconds and of a bucket.
  The text of a bucket begins with the text of a function, which is not a numeral: the
  division makes it \<open>NaN\<close>, and so is the result.
\<close>

definition toHours :: "int \<Rightarrow> rat" where
  "toHours seconds = fdiv (of_int (Math_round (fmul (fdiv (of_int seconds) 3600) 100))) 100"

datatype hours = NaN_hours | Hours rat

fun bucket_hours :: "bucket \<Rightarrow> hours" where
  "bucket_hours (Seconds n) = Hours (toHours n)"
| "bucket_hours (Text s) = NaN_hours"

fun show_hours :: "runtime \<Rightarrow> hours \<Rightarrow> string" where
  "show_hours rt NaN_hours = ''NaN''"
| "show_hours rt (Hours q) = show_num rt q"

record totals =
  totalSeconds :: int
  dailyTotals :: "bucket object"
  projectTotals :: "bucket object"

text \<open>
  The loop over the entries.  \<open>entry.start.split\<close> throws a \<open>TypeError\<close> when \<open>start\<close> is
  \<open>undefined\<close> or \<open>null\<close>.
\<close>

fun tally :: "runtime \<Rightarrow> TimeEntry list \<Rightarrow> totals \<Rightarrow> exn + totals" where
  "tally rt [] t = Inr t"
| "tally rt (entry # rest) t =
     (let d = \<bar>or_zero (duration entry)\<bar> in
      case start entry of
        Undefined \<Rightarrow> Inl (TypeError ''Cannot read properties of undefined (reading 'split')'')
      | Null \<Rightarrow> Inl (TypeError ''Cannot read properties of null (reading 'split')'')
      | Val s \<Rightarrow>
          tally rt rest
            \<lparr>totalSeconds = js_plus (totalSeconds t) d,
             dailyTotals = add_to rt (dailyTotals t) (split_T_0 s) d,
             projectTotals =
               add_to rt (projectTotals t) (or_else (project_name entry) ''No Project'') d\<rparr>)"

record WeeklySummary =
  week_starting :: string
  week_ending :: string
  total_hours :: rat
  daily_breakdown :: "hours object"
  project_breakdown :: "hours object"
  entry_count :: nat
  entries :: "TimeEntry list"

text \<open>
  The default \<open>sort()\<close> orders the pairs by their string forms \<open>date,hours\<close>.  The sort
  with the comparator \<open>b[1] - a[1]\<close> puts a pair before the pairs that follow it for which
  the comparator is not positive: it orders the pairs by descending hours.  Both sorts are
  stable.  With a \<open>NaN\<close> among the hours the comparator is not consistent and the order
  is left to the implementation; the insertion sort here is one such order.
\<close>

definition not_after :: "string \<times> hours \<Rightarrow> string \<times> hours \<Rightarrow> bool" where
  "not_after a b = (case (snd a, snd b) of (Hours x, Hours y) \<Rightarrow> y \<le> x | _ \<Rightarrow> True)"

fun insert_by :: "('a \<Rightarrow> 'a \<Rightarrow> bool) \<Rightarrow> 'a \<Rightarrow> 'a list \<Rightarrow> 'a list" where
  "insert_by le x [] = [x]"
| "insert_by le x (y # ys) = (if le x y then x # y # ys else y # insert_by le x ys)"

definition sort_by :: "('a \<Rightarrow> 'a \<Rightarrow> bool) \<Rightarrow> 'a list \<Rightarrow> 'a list" where
  "sort_by le xs = foldr (insert_by le) xs []"

definition summarize :: "runtime \<Rightarrow> Date \<Rightarrow> Date \<Rightarrow> TimeEntry list option \<Rightarrow> exn + WeeklySummary" where
  "summarize rt monday sunday response =
     (case response of
        None \<Rightarrow> Inl (TypeError ''entries is not iterable'')
      | Some es \<Rightarrow>
          (case tally rt es \<lparr>totalSeconds = 0, dailyTotals = [], projectTotals = []\<rparr> of
             Inl e \<Rightarrow> Inl e
           | Inr t \<Rightarrow>
               (case toISOString rt monday of
                  Inl e \<Rightarrow> Inl e
                | Inr starting \<Rightarrow>
                    (case toISOString rt sunday of
                       Inl e \<Rightarrow> Inl e
                     | Inr ending \<Rightarrow>
                         Inr \<lparr>week_starting = split_T_0 starting,
                              week_ending = split_T_0 ending,
                              total_hours = toHours (totalSeconds t),
                              daily_breakdown =
                                Object_fromEntries
                                  (sort_key (\<lambda>(date, hours). date @ '','' @ show_hours rt hours)
                                     (map (\<lambda>(date, seconds). (date, bucket_hours seconds))
                                        (Object_entries (dailyTotals t)))),
                              project_breakdown =
                                Object_fromEntries
                                  (sort_by not_after
                                     (map (\<lambda>(project, seconds). (project, bucket_hours seconds))
                                        (Object_entries (projectTotals t)))),
                              entry_count = length es,
                              entries = es\<rparr>))))"

definition getWeeklyEntries :: "runtime \<Rightarrow> remote \<Rightarrow> Date \<Rightarrow> int \<Rightarrow> WeeklySummary async" where
  "getWeeklyEntries rt rm today weekOffset =
     (let monday = fst (week_window rt today weekOffset);
          sunday = snd (week_window rt today weekOffset)
      in await (getEntriesForDateRange rt rm monday sunday) (\<lambda>response.
           case summarize rt monday sunday response of
             Inl e \<Rightarrow> throw e
           | Inr summary \<Rightarrow> return summary))"

section \<open>Argument validation\<close>

text \<open>
  The arguments of a tool call are absent or an object of JSON values.  The schemas are
  built with the validation library's \<open>z.object\<close> and are not made strict: such a schema
  checks the keys it declares, collects the issues of all of them, and leaves every other
  key of the object out of its result without an issue (the library's behaviour, which is
  not part of this program's source).  Numbers in arguments are the integers.
\<close>

datatype json =
    JNull
  | JBool bool
  | JNum int
  | JStr string
  | JArr "json list"
  | JObj "(string \<times> json) list"

type_synonym arguments = "(string \<rightharpoonup> json) option"

fun received :: "json \<Rightarrow> string" where
  "received JNull = ''null''"
| "received (JBool b) = ''boolean''"
| "received (JNum n) = ''number''"
| "received (JStr s) = ''string''"
| "received (JArr xs) = ''array''"
| "received (JObj kvs) = ''object''"

text \<open>\<open>z.string()\<close> and \<open>z.number()\<close> on a property: its issues, or its value.\<close>

fun z_string :: "json option \<Rightarrow> string list + string" where
  "z_string None = Inl [''Required'']"
| "z_string (Some (JStr s)) = Inr s"
| "z_string (Some v) = Inl [''Expected string, received '' @ received v]"

fun z_number :: "json option \<Rightarrow> string list + int" where
  "z_number None = Inl [''Required'']"
| "z_number (Some (JNum n)) = Inr n"
| "z_number (Some v) = Inl [''Expected number, received '' @ received v]"

text \<open>\<open>.optional()\<close> accepts an absent property; \<open>.optional().default(0)\<close> makes it 0.\<close>

fun z_optional :: "('v option \<Rightarrow> string list + 'a) \<Rightarrow> 'v option \<Rightarrow> string list + 'a option" where
  "z_optional z None = Inr None"
| "z_optional z (Some v) = (case z (Some v) of Inl issues \<Rightarrow> Inl issues | Inr a \<Rightarrow> Inr (Some a))"

definition issues_of :: "string list + 'a \<Rightarrow> string list" where
  "issues_of r = (case r of Inl issues \<Rightarrow> issues | Inr a \<Rightarrow> [])"

definition StartTimerSchema_parse :: "arguments \<Rightarrow> exn + string \<times> string option" where
  "StartTimerSchema_parse args =
     (case args of
        None \<Rightarrow> Inl (ZodError [''Required''])
      | Some obj \<Rightarrow>
          (case (z_string (obj ''description''), z_optional z_string (obj ''project_name'')) of
             (Inr descr, Inr project) \<Rightarrow> Inr (descr, project)
           | (d, p) \<Rightarrow> Inl (ZodError (issues_of d @ issues_of p))))"

definition DeleteEntrySchema_parse :: "arguments \<Rightarrow> exn + int" where
  "DeleteEntrySchema_parse args =
     (case args of
        None \<Rightarrow> Inl (ZodError [''Required''])
      | Some obj \<Rightarrow>
          (case z_number (obj ''entry_id'') of
             Inr entry_id \<Rightarrow> Inr entry_id
           | Inl issues \<Rightarrow> Inl (ZodError issues)))"

definition WeeklyEntriesSchema_parse :: "arguments \<Rightarrow> exn + int" where
  "WeeklyEntriesSchema_parse args =
     (case args of
        None \<Rightarrow> Inl (ZodError [''Required''])
      | Some obj \<Rightarrow>
          (case z_optional z_number (obj ''week_offset'') of
             Inr None \<Rightarrow> Inr 0
           | Inr (Some week_offset) \<Rightarrow> Inr week_offset
           | Inl issues \<Rightarrow> Inl (ZodError issues)))"

section \<open>The tools\<close>

fun show_number :: "runtime \<Rightarrow> number \<Rightarrow> string" where
  "show_number rt NaN = ''NaN''"
| "show_number rt (Num n) = show_num rt (of_int n)"

definition bullet :: string where
  "bullet = [CHR 0xE2, CHR 0x80, CHR 0xA2]"

definition Object_keys :: "'a object \<Rightarrow> string list" where
  "Object_keys obj = map fst (Object_entries obj)"

text \<open>\<open>e.start && e.start.startsWith(date)\<close>\<close>

fun start_startsWith :: "string field \<Rightarrow> string \<Rightarrow> bool" where
  "start_startsWith (Val s) date = (s \<noteq> [] \<and> startsWith s date)"
| "start_startsWith _ date = False"

definition toggl_start :: "runtime \<Rightarrow> remote \<Rightarrow> Date \<Rightarrow> arguments \<Rightarrow> string async" where
  "toggl_start rt rm now args =
     (case StartTimerSchema_parse args of
        Inl e \<Rightarrow> throw e
      | Inr (descr, pname) \<Rightarrow>
          await
            (case pname of
               None \<Rightarrow> return None
             | Some pn \<Rightarrow>
                 if pn = [] then return None
                 else await (getProjects rm) (\<lambda>projects.
                   case projects of
                     None \<Rightarrow> throw (TypeError ''Cannot read properties of null (reading 'find')'')
                   | Some ps \<Rightarrow>
                       return (map_option p_id
                         (find (\<lambda>p. toLowerCase rt (p_name p) = toLowerCase rt pn) ps))))
            (\<lambda>projectId.
               await (startTimer rt rm now descr projectId) (\<lambda>entry.
                 return (''Started timer: '' @ dq @ descr @ dq @
                   (case pname of
                      None \<Rightarrow> []
                    | Some pn \<Rightarrow> if pn = [] then [] else '' on project '' @ dq @ pn @ dq) @
                   nl @ ''Entry ID: '' @ show_num rt (of_int (id_n entry))))))"

definition toggl_stop :: "runtime \<Rightarrow> remote \<Rightarrow> string async" where
  "toggl_stop rt rm =
     await (stopTimer rm) (\<lambda>entry.
       let d = abs_num (to_number (duration entry));
           hours = floor_div_num d 3600;
           minutes = floor_div_num (rem_num d 3600) 60
       in return (''Stopped timer: '' @ dq @ template (description entry) @ dq @ nl @
            ''Duration: '' @ show_number rt hours @ ''h '' @ show_number rt minutes @ ''m''))"

definition toggl_current :: "runtime \<Rightarrow> remote \<Rightarrow> int \<Rightarrow> string async" where
  "toggl_current rt rm now_ms =
     await (getCurrentEntry rm) (\<lambda>current.
       case current of
         None \<Rightarrow> return ''No timer is currently running''
       | Some cur \<Rightarrow>
           let d = abs_num (add_num (to_number (duration cur))
                                    (Num (Math_floor (fdiv (of_int now_ms) 1000))));
               hours = floor_div_num d 3600;
               minutes = floor_div_num (rem_num d 3600) 60
           in return (''Currently tracking: '' @ dq @ template (description cur) @ dq @ nl @
                ''Running for: '' @ show_number rt hours @ ''h '' @ show_number rt minutes @ ''m''))"

text \<open>The \<open>reduce\<close> of the \<open>toggl_today\<close> case.\<close>

definition today_total :: "TimeEntry list \<Rightarrow> number" where
  "today_total es = foldl (\<lambda>sum entry. add_num sum (abs_num (to_number (duration entry)))) (Num 0) es"

definition toggl_today :: "runtime \<Rightarrow> remote \<Rightarrow> Date \<Rightarrow> string async" where
  "toggl_today rt rm now =
     await (getTodayEntries rt rm now) (\<lambda>response.
       case response of
         None \<Rightarrow> return ''No time entries today''
       | Some es \<Rightarrow>
           if length es = 0 then return ''No time entries today''
           else
             let totalSeconds = today_total es;
                 totalHours = floor_div_num totalSeconds 3600;
                 totalMinutes = floor_div_num (rem_num totalSeconds 3600) 60;
                 entryList = join nl (map (\<lambda>e.
                   let d = abs_num (to_number (duration e));
                       h = floor_div_num d 3600;
                       m = floor_div_num (rem_num d 3600) 60
                   in ''- '' @ or_else (description e) ''No description'' @
                      '' ('' @ show_number rt h @ ''h '' @ show_number rt m @ ''m)'') es)
             in return (''Today's entries:'' @ nl @ entryList @ nl @ nl @
                  ''Total: '' @ show_number rt totalHours @ ''h '' @
                  show_number rt totalMinutes @ ''m''))"

definition toggl_projects :: "runtime \<Rightarrow> remote \<Rightarrow> string async" where
  "toggl_projects rt rm =
     await (getProjects rm) (\<lambda>projects.
       case projects of
         None \<Rightarrow> return ''No projects found''
       | Some ps \<Rightarrow>
           if length ps = 0 then return ''No projects found''
           else return (''Projects:'' @ nl @
                  join nl (map (\<lambda>p. ''- '' @ p_name p @ '' (ID: '' @
                                      show_num rt (of_int (p_id p)) @ '')'') ps)))"

definition toggl_delete :: "runtime \<Rightarrow> remote \<Rightarrow> arguments \<Rightarrow> string async" where
  "toggl_delete rt rm args =
     (case DeleteEntrySchema_parse args of
        Inl e \<Rightarrow> throw e
      | Inr entry_id \<Rightarrow> deleteEntry rt rm entry_id)"

definition toggl_weekly :: "runtime \<Rightarrow> remote \<Rightarrow> Date \<Rightarrow> arguments \<Rightarrow> string async" where
  "toggl_weekly rt rm today args =
     (case WeeklyEntriesSchema_parse args of
        Inl e \<Rightarrow> throw e
      | Inr week_offset \<Rightarrow>
          await (getWeeklyEntries rt rm today week_offset) (\<lambda>summary.
            let weekLabel =
                  (if week_offset = 0 then ''Current''
                   else if week_offset = - 1 then ''Last''
                   else show_num rt (of_int \<bar>week_offset\<bar>) @ '' weeks ago'');
                text0 = weekLabel @ '' Week Summary ('' @ week_starting summary @ '' to '' @
                        week_ending summary @ '')'' @ nl;
                text1 = text0 @ ''Total: '' @ show_num rt (total_hours summary) @ '' hours'' @ nl @ nl;
                text2 =
                  (if length (Object_keys (daily_breakdown summary)) > 0
                   then foldl (\<lambda>text (date, hours).
                          let text' = text @ ''  '' @ date @ '': '' @ show_hours rt hours @ ''h'' @ nl;
                              dayEntries = filter (\<lambda>e. start_startsWith (start e) date) (entries summary)
                          in if length dayEntries > 0
                             then text' @ join nl (map (\<lambda>e.
                                    let d = \<bar>or_zero (duration e)\<bar>;
                                        h = Math_floor (fdiv (of_int d) 3600);
                                        m = Math_floor (fdiv (of_int (js_rem d 3600)) 60);
                                        timeStr =
                                          (if h > 0
                                           then show_num rt (of_int h) @ ''h'' @
                                                (if m > 0 then '' '' @ show_num rt (of_int m) @ ''m'' else [])
                                           else show_num rt (of_int m) @ ''m'')
                                    in ''    '' @ bullet @ '' '' @
                                       or_else (description e) ''No description'' @
                                       '' ('' @ timeStr @ '')'') dayEntries) @ nl
                             else text')
                          (text1 @ ''Daily Breakdown:'' @ nl)
                          (Object_entries (daily_breakdown summary)) @ nl
                   else text1);
                text3 =
                  (if length (Object_keys (project_breakdown summary)) > 0
                   then foldl (\<lambda>text (project, hours).
                          text @ ''  '' @ project @ '': '' @ show_hours rt hours @ ''h'' @ nl)
                          (text2 @ ''Project Breakdown:'' @ nl)
                          (Object_entries (project_breakdown summary))
                   else text2)
            in return (text3 @ nl @ ''Total entries: '' @
                       show_num rt (of_nat (entry_count summary)))))"

definition toggl_last_week :: "runtime \<Rightarrow> remote \<Rightarrow> Date \<Rightarrow> string async" where
  "toggl_last_week rt rm today =
     await (getWeeklyEntries rt rm today (- 1)) (\<lambda>summary.
       let text0 = ''Last Week Summary ('' @ week_starting summary @ '' to '' @
                   week_ending summary @ '')'' @ nl;
           text1 = text0 @ ''Total: '' @ show_num rt (total_hours summary) @ '' hours'' @ nl @ nl;
           text2 =
             (if length (Object_keys (daily_breakdown summary)) > 0
              then foldl (\<lambda>text (date, hours).
                     let text' = text @ ''  '' @ date @ '': '' @ show_hours rt hours @ ''h'' @ nl;
                         dayEntries = filter (\<lambda>e. start_startsWith (start e) date) (entries summary)
                     in if length dayEntries > 0
                        then text' @ join nl (map (\<lambda>e.
                               let d = \<bar>or_zero (duration e)\<bar>;
                                   h = Math_floor (fdiv (of_int d) 3600);
                                   m = Math_floor (fdiv (of_int (js_rem d 3600)) 60);
                                   timeStr =
                                     (if h > 0
                                      then show_num rt (of_int h) @ ''h'' @
                                           (if m > 0 then '' '' @ show_num rt (of_int m) @ ''m'' else [])
                                      else show_num rt (of_int m) @ ''m'')
                               in ''    '' @ bullet @ '' '' @
                                  or_else (description e) ''No description'' @
                                  '' ('' @ timeStr @ '')'') dayEntries) @ nl
                        else text')
                     (text1 @ ''Daily Breakdown:'' @ nl)
                     (Object_entries (daily_breakdown summary)) @ nl
              else text1);
           text3 =
             (if length (Object_keys (project_breakdown summary)) > 0
              then foldl (\<lambda>text (project, hours).
                     text @ ''  '' @ project @ '': '' @ show_hours rt hours @ ''h'' @ nl)
                     (text2 @ ''Project Breakdown:'' @ nl)
                     (Object_entries (project_breakdown summary))
              else text2)
       in return (text3 @ nl @ ''Total entries: '' @
                  show_num rt (of_nat (entry_count summary))))"

text \<open>
  The request handler: the \<open>switch\<close> on the tool's name inside \<open>try\<close>, and the \<open>catch\<close>
  that rethrows every exception as an \<open>McpError\<close>.  \<open>now\<close> is the clock's \<open>new Date()\<close> and
  \<open>now_ms\<close> its \<open>Date.now()\<close>.
\<close>

definition call_tool ::
  "runtime \<Rightarrow> remote \<Rightarrow> Date \<Rightarrow> int \<Rightarrow> string \<Rightarrow> arguments \<Rightarrow> string async" where
  "call_tool rt rm now now_ms name args c =
     (let handler =
            (if name = ''toggl_start'' then toggl_start rt rm now args
             else if name = ''toggl_stop'' then toggl_stop rt rm
             else if name = ''toggl_current'' then toggl_current rt rm now_ms
             else if name = ''toggl_today'' then toggl_today rt rm now
             else if name = ''toggl_projects'' then toggl_projects rt rm
             else if name = ''toggl_delete'' then toggl_delete rt rm args
             else if name = ''toggl_weekly'' then toggl_weekly rt rm now args
             else if name = ''toggl_last_week'' then toggl_last_week rt rm now
             else throw (McpError MethodNotFound (''Unknown tool: '' @ name)))
      in case handler c of
           (Inl e, c') \<Rightarrow> (Inl (translate rt e), c')
         | (Inr text, c') \<Rightarrow> (Inr text, c'))"

section \<open>Auxiliary definitions for the statements\<close>

text \<open>A request to the stop endpoint.\<close>

fun is_stop :: "request \<Rightarrow> bool" where
  "is_stop (PatchStop w i) = True"
| "is_stop _ = False"

text \<open>
  A sample clock (1 January 2024, a Monday, at 10:00 UTC), the Monday and the Sunday of
  its week, and a sample runtime: a time zone without offset, a calendar that is right for
  December 2023 and January 2024, the ISO strings of these three dates, a rendering of
  numbers that hides them, and two of the members of \<open>Object.prototype\<close>.  A sample
  remote service and client follow.
\<close>

definition now0 :: Date where
  "now0 = Time 1704103200000"

definition monday0 :: Date where
  "monday0 = Time 1704067200000"

definition sunday0 :: Date where
  "sunday0 = Time 1704671999999"

definition rt0 :: runtime where
  "rt0 = \<lparr>LocalTime = (\<lambda>t. t), UTC = (\<lambda>l. l),
          DateFromTime = (\<lambda>l. if Day l < 19723 then Day l - 19691 else Day l - 19722),
          ISOString = (\<lambda>t. if t = 1704067200000 then ''2024-01-01T00:00:00.000Z''
                            else if t = 1704671999999 then ''2024-01-07T23:59:59.999Z''
                            else ''2024-01-01T10:00:00.000Z''),
          show_num = (\<lambda>q. ''#''), toLowerCase = (\<lambda>s. s),
          Object_prototype =
            (\<lambda>k. if k = ''constructor'' then Some ''function Object() { [native code] }''
                 else if k = ''__proto__'' then Some ''[object Object]''
                 else None)\<rparr>"

definition rm0 :: remote where
  "rm0 = \<lparr>r_me = Inr 7, r_current = Inr None, r_entries = (\<lambda>a b. Inr (Some [])),
          r_projects = (\<lambda>w. Inr (Some [])),
          r_create = (\<lambda>w d p s. Inl (None, ''offline'')),
          r_stop = (\<lambda>w i. Inl (None, ''offline'')),
          r_delete = (\<lambda>w i. Inr ())\<rparr>"

definition c0 :: TogglClient where
  "c0 = \<lparr>workspaceId = None, sent = []\<rparr>"

text \<open>
  The local time of a date.  The local day number of the Monday that \<open>getWeeklyEntries\<close>
  aims at: the Monday of the week of the instant \<open>t0\<close>, moved by \<open>k\<close> weeks.
\<close>

fun local_time :: "runtime \<Rightarrow> Date \<Rightarrow> int option" where
  "local_time rt (Time t) = Some (LocalTime rt t)"
| "local_time rt Invalid_Date = None"

definition target_monday :: "runtime \<Rightarrow> int \<Rightarrow> int \<Rightarrow> int" where
  "target_monday rt t0 k =
     (let d = Day (LocalTime rt t0); w = (d + 4) mod 7
      in d + (if w = 0 then - 6 else 1 - w) + 7 * k)"

text \<open>
  What the window needs of the runtime.  A local time \<open>exists\<close> when the runtime converts
  it to a time value in the range of \<open>Date\<close> whose local time it is; it \<open>keeps its day\<close>
  when that time value is in range and its local time falls on the same day (a local time
  that daylight saving skips is moved, usually by an hour).  The calendar gives a day of
  the month between 1 and 31.  A week is \<open>regular\<close> for the clock \<open>t0\<close> and the offset \<open>k\<close>
  when seven times the offset is far below \<open>2 ^ 53\<close>, the calendar is sound at the two dates
  the program asks for a day of the month, the two dates that \<open>setDate\<close> produces keep
  their day, and the local times 00:00:00.000 of the Monday and 23:59:59.999 of the Sunday
  exist.
\<close>

definition in_range :: "int \<Rightarrow> bool" where
  "in_range t = (\<bar>t\<bar> \<le> 8640000000000000)"

definition exists_local :: "runtime \<Rightarrow> int \<Rightarrow> bool" where
  "exists_local rt l = (in_range (UTC rt l) \<and> LocalTime rt (UTC rt l) = l)"

definition keeps_day :: "runtime \<Rightarrow> int \<Rightarrow> bool" where
  "keeps_day rt l = (in_range (UTC rt l) \<and> Day (LocalTime rt (UTC rt l)) = Day l)"

definition day_of_month :: "runtime \<Rightarrow> int \<Rightarrow> bool" where
  "day_of_month rt l = (1 \<le> DateFromTime rt l \<and> DateFromTime rt l \<le> 31)"

definition regular_week :: "runtime \<Rightarrow> int \<Rightarrow> int \<Rightarrow> bool" where
  "regular_week rt t0 k =
     (let l0 = LocalTime rt t0; D = target_monday rt t0 k
      in \<bar>7 * k\<bar> < 2 ^ 52 \<and>
         day_of_month rt l0 \<and>
         keeps_day rt (D * msPerDay + TimeWithinDay l0) \<and>
         exists_local rt (D * msPerDay) \<and>
         day_of_month rt (D * msPerDay) \<and>
         keeps_day rt ((D + 6) * msPerDay) \<and>
         exists_local rt ((D + 6) * msPerDay + 86399999))"

text \<open>
  The time zone of Tehran around Monday 22 March 2021, when the clocks went from 00:00
  to 01:00: the offset is 3:30 before the time value 1616358600000 and 4:30 from it on,
  and a local time in the skipped hour is read with the offset before the change.  The
  calendar is right for March 2021.  The clock is Wednesday 24 March 2021 at 12:00
  there.
\<close>

definition rt_tehran :: runtime where
  "rt_tehran =
     rt0\<lparr>LocalTime := (\<lambda>t. if t < 1616358600000 then t + 12600000 else t + 16200000),
         UTC := (\<lambda>l. if 1616358600000 \<le> l - 16200000 then l - 16200000 else l - 12600000),
         DateFromTime := (\<lambda>l. Day l - 18686)\<rparr>"

definition today_tehran :: Date where
  "today_tehran = Time 1616571000000"

text \<open>The seconds an entry adds to the total of \<open>toggl_today\<close> when no duration is absent.\<close>

definition abs_seconds :: "TimeEntry \<Rightarrow> int" where
  "abs_seconds e = (case duration e of Val d \<Rightarrow> \<bar>d\<bar> | _ \<Rightarrow> 0)"

definition e_running :: TimeEntry where
  "e_running = \<lparr>id_n = 1, description = Val ''write report'', duration = Val (- 1700000000),
                start = Val ''2024-01-01T08:00:00Z'', project_name = Undefined\<rparr>"

definition rm_today :: remote where
  "rm_today = rm0\<lparr>r_entries := (\<lambda>a b. Inr (Some [e_running]))\<rparr>"

definition e_no_start :: TimeEntry where
  "e_no_start = \<lparr>id_n = 2, description = Val ''stand-up'', duration = Val 900,
                 start = Undefined, project_name = Val ''Internal''\<rparr>"

definition rm_no_start :: remote where
  "rm_no_start = rm0\<lparr>r_entries := (\<lambda>a b. Inr (Some [e_no_start]))\<rparr>"

text \<open>A remote service that creates the entry it is asked for.\<close>

definition rm_start :: remote where
  "rm_start = rm0\<lparr>r_create := (\<lambda>w d p s. Inr e_running)\<rparr>"

text \<open>
  What \<open>toggl_start\<close> does once its arguments are validated: the lookup of the project,
  the creation of the entry, and the text.
\<close>

definition start_text :: "runtime \<Rightarrow> string \<Rightarrow> string option \<Rightarrow> TimeEntry \<Rightarrow> string" where
  "start_text rt descr pname entry =
     ''Started timer: '' @ dq @ descr @ dq @
     (case pname of
        None \<Rightarrow> []
      | Some pn \<Rightarrow> if pn = [] then [] else '' on project '' @ dq @ pn @ dq) @
     nl @ ''Entry ID: '' @ show_num rt (of_int (id_n entry))"

definition start_after_validation ::
  "runtime \<Rightarrow> remote \<Rightarrow> Date \<Rightarrow> string \<Rightarrow> string option \<Rightarrow> string async" where
  "start_after_validation rt rm now descr pname =
     await
       (case pname of
          None \<Rightarrow> return None
        | Some pn \<Rightarrow>
            if pn = [] then return None
            else await (getProjects rm) (\<lambda>projects.
              case projects of
                None \<Rightarrow> throw (TypeError ''Cannot read properties of null (reading 'find')'')
              | Some ps \<Rightarrow>
                  return (map_option p_id
                    (find (\<lambda>p. toLowerCase rt (p_name p) = toLowerCase rt pn) ps))))
       (\<lambda>projectId.
          await (startTimer rt rm now descr projectId) (\<lambda>entry.
            return (start_text rt descr pname entry)))"

text \<open>The validation error of a schema, and the error the handler makes of it.\<close>

definition is_ZodError :: "exn + 'a \<Rightarrow> bool" where
  "is_ZodError r = (case r of Inl (ZodError issues) \<Rightarrow> True | _ \<Rightarrow> False)"

definition is_invalid_params :: "exn + 'a \<Rightarrow> bool" where
  "is_invalid_params r = (case r of Inl (McpError InvalidParams m) \<Rightarrow> True | _ \<Rightarrow> False)"

section \<open>The weekly summary as the specification words it\<close>




text \<open>
  The seconds an entry counts for in the week, the keys of its two buckets, and the
  seconds of the entries of one bucket.  A key is plain when \<open>Object.prototype\<close> has no
  member of that name.
\<close>

definition seconds_of :: "TimeEntry \<Rightarrow> int" where
  "seconds_of e = \<bar>or_zero (duration e)\<bar>"

definition day_of :: "TimeEntry \<Rightarrow> string" where
  "day_of e = (case start e of Val s \<Rightarrow> split_T_0 s | _ \<Rightarrow> [])"

definition project_of :: "TimeEntry \<Rightarrow> string" where
  "project_of e = or_else (project_name e) ''No Project''"

definition bucket_seconds :: "(TimeEntry \<Rightarrow> string) \<Rightarrow> TimeEntry list \<Rightarrow> string \<Rightarrow> int" where
  "bucket_seconds key es k = sum_list (map seconds_of (filter (\<lambda>e. key e = k) es))"

definition is_plain :: "runtime \<Rightarrow> string \<Rightarrow> bool" where
  "is_plain rt k = (Object_prototype rt k = None \<and> k \<noteq> ''__proto__'')"

definition plain_keys :: "runtime \<Rightarrow> TimeEntry list \<Rightarrow> bool" where
  "plain_keys rt es = list_all (\<lambda>e. is_plain rt (day_of e) \<and> is_plain rt (project_of e)) es"

text \<open>
  A record of seconds with plain keys only, and sums that are exact: \<open>add_plain\<close> is
  \<open>obj[k] = (obj[k] || 0) + v\<close> on it, and \<open>tally_obj\<close> the loop on one record.  The value
  of a property is 0 when the object does not have it.
\<close>

fun add_plain :: "int object \<Rightarrow> string \<Rightarrow> int \<Rightarrow> int object" where
  "add_plain [] k v = [(k, 0 + v)]"
| "add_plain ((k', v') # kvs) k v =
     (if k' = k then (k', (if v' = 0 then 0 else v') + v) # kvs else (k', v') # add_plain kvs k v)"

definition prop_or_zero :: "int object \<Rightarrow> string \<Rightarrow> int" where
  "prop_or_zero obj k = (case map_of obj k of None \<Rightarrow> 0 | Some v \<Rightarrow> v)"

definition tally_obj :: "(TimeEntry \<Rightarrow> string) \<Rightarrow> int object \<Rightarrow> TimeEntry list \<Rightarrow> int object" where
  "tally_obj key obj es = foldl (\<lambda>obj e. add_plain obj (key e) (seconds_of e)) obj es"

definition seconds_obj :: "int object \<Rightarrow> bucket object" where
  "seconds_obj obj = map (\<lambda>(k, n). (k, Seconds n)) obj"

text \<open>
  The hours of a value of the summary (0 stands for \<open>NaN\<close>), and an hour value read as a
  whole number of hundredths of an hour.
\<close>

fun hours_value :: "hours \<Rightarrow> rat" where
  "hours_value (Hours q) = q"
| "hours_value NaN_hours = 0"

definition hundredths :: "rat \<Rightarrow> int" where
  "hundredths h = round (h * 100)"

text \<open>
  The pairs of a breakdown of a record of seconds before they are sorted, and the integer
  \<open>Math.round(seconds / 3600 * 100)\<close>.
\<close>

definition hours_entries :: "int object \<Rightarrow> (string \<times> hours) list" where
  "hours_entries obj =
     map (\<lambda>(k, seconds). (k, bucket_hours seconds)) (Object_entries (seconds_obj obj))"

definition round_hundredths :: "int \<Rightarrow> int" where
  "round_hundredths s = Math_round (fmul (fdiv (of_int s) 3600) 100)"

text \<open>Four entries of twenty seconds each, on four days and four projects.\<close>

definition entries4 :: "TimeEntry list" where
  "entries4 =
     [\<lparr>id_n = 11, description = Val ''plan'', duration = Val 20,
       start = Val ''2024-01-01T09:00:00+00:00'', project_name = Val ''Alpha''\<rparr>,
      \<lparr>id_n = 12, description = Val ''build'', duration = Val 20,
       start = Val ''2024-01-02T09:00:00+00:00'', project_name = Val ''Beta''\<rparr>,
      \<lparr>id_n = 13, description = Val ''test'', duration = Val 20,
       start = Val ''2024-01-03T09:00:00+00:00'', project_name = Val ''Gamma''\<rparr>,
      \<lparr>id_n = 14, description = Val ''ship'', duration = Val 20,
       start = Val ''2024-01-04T09:00:00+00:00'', project_name = Val ''Delta''\<rparr>]"

definition summary4 :: WeeklySummary where
  "summary4 =
     \<lparr>week_starting = ''2024-01-01'', week_ending = ''2024-01-07'',
      total_hours = toHours 80,
      daily_breakdown =
        [(''2024-01-01'', Hours (toHours 20)), (''2024-01-02'', Hours (toHours 20)),
         (''2024-01-03'', Hours (toHours 20)), (''2024-01-04'', Hours (toHours 20))],
      project_breakdown =
        [(''Alpha'', Hours (toHours 20)), (''Beta'', Hours (toHours 20)),
         (''Gamma'', Hours (toHours 20)), (''Delta'', Hours (toHours 20))],
      entry_count = 4, entries = entries4\<rparr>"



text \<open>
  The text \<open>{h}h {m}m\<close> of \<open>d\<close> seconds with the integer quotients, and a remote service
  with a running entry that it stops.
\<close>

definition hm_text :: "runtime \<Rightarrow> int \<Rightarrow> string" where
  "hm_text rt d =
     show_num rt (of_int (d div 3600)) @ ''h '' @ show_num rt (of_int (d mod 3600 div 60)) @ ''m''"

definition e_stopped :: TimeEntry where
  "e_stopped = \<lparr>id_n = 1, description = Val ''write report'', duration = Val 3725,
                start = Val ''2024-01-01T08:00:00Z'', project_name = Undefined\<rparr>"

definition rm_stop :: remote where
  "rm_stop = rm0\<lparr>r_current := Inr (Some e_running), r_stop := (\<lambda>w i. Inr e_stopped)\<rparr>"

section \<open>Properties of the arithmetic\<close>

lemma powi_nat: "0 \<le> k \<Longrightarrow> (2::rat) powi k = 2 ^ nat k"
  by (simp add: power_int_def)

lemma expo_le:
  assumes "0 < x"
  shows "2 powi (expo x) \<le> x"
proof -
  obtain p q where pq: "quotient_of x = (p, q)" by (cases "quotient_of x")
  have q: "0 < q" using pq quotient_of_denom_pos by blast
  have x: "x = of_int p / of_int q" using pq by (rule quotient_of_div)
  have p: "0 < p" using assms q x by (simp add: zero_less_divide_iff)
  define d where "d = bitlen p - bitlen q"
  have bp: "1 \<le> bitlen p" using p bitlen_eq_zero_iff[of p] bitlen_nonneg[of p] by linarith
  have bq: "1 \<le> bitlen q" using q bitlen_eq_zero_iff[of q] bitlen_nonneg[of q] by linarith
  have "(2::int) ^ nat (bitlen p - 1) \<le> p" using bitlen_bounds[OF p] by simp
  then have "(of_int ((2::int) ^ nat (bitlen p - 1)) :: rat) \<le> of_int p"
    by (simp only: of_int_le_iff)
  then have lp: "(2::rat) powi (bitlen p - 1) \<le> of_int p"
    using bp by (simp add: powi_nat)
  have "q < (2::int) ^ nat (bitlen q)" using bitlen_bounds[OF q] by simp
  then have "(of_int q :: rat) < of_int ((2::int) ^ nat (bitlen q))"
    by (simp only: of_int_less_iff)
  then have uq: "(of_int q :: rat) < 2 powi (bitlen q)"
    using bq by (simp add: powi_nat)
  have "(2::rat) powi (d - 1) = 2 powi (bitlen p - 1) / 2 powi (bitlen q)"
    by (simp add: d_def power_int_diff)
  also have "\<dots> \<le> of_int p / 2 powi (bitlen q)"
    using lp by (simp add: divide_right_mono)
  also have "\<dots> \<le> of_int p / of_int q"
    using uq p q by (simp add: frac_le)
  finally have low: "(2::rat) powi (d - 1) \<le> x" using x by simp
  have "expo x = (if 2 powi d \<le> x then d else d - 1)"
    by (simp add: expo_def pq d_def Let_def)
  then show ?thesis using low by (cases "2 powi d \<le> x") simp_all
qed

lemma expo_less:
  assumes "0 < x"
  shows "x < 2 powi (expo x + 1)"
proof -
  obtain p q where pq: "quotient_of x = (p, q)" by (cases "quotient_of x")
  have q: "0 < q" using pq quotient_of_denom_pos by blast
  have x: "x = of_int p / of_int q" using pq by (rule quotient_of_div)
  have p: "0 < p" using assms q x by (simp add: zero_less_divide_iff)
  define d where "d = bitlen p - bitlen q"
  have bp: "1 \<le> bitlen p" using p bitlen_eq_zero_iff[of p] bitlen_nonneg[of p] by linarith
  have bq: "1 \<le> bitlen q" using q bitlen_eq_zero_iff[of q] bitlen_nonneg[of q] by linarith
  have "p < (2::int) ^ nat (bitlen p)" using bitlen_bounds[OF p] by simp
  then have "(of_int p :: rat) < of_int ((2::int) ^ nat (bitlen p))"
    by (simp only: of_int_less_iff)
  then have up: "(of_int p :: rat) < 2 powi (bitlen p)"
    using bp by (simp add: powi_nat)
  have "(2::int) ^ nat (bitlen q - 1) \<le> q" using bitlen_bounds[OF q] by simp
  then have "(of_int ((2::int) ^ nat (bitlen q - 1)) :: rat) \<le> of_int q"
    by (simp only: of_int_le_iff)
  then have lq: "(2::rat) powi (bitlen q - 1) \<le> of_int q"
    using bq by (simp add: powi_nat)
  have lq0: "(0::rat) < 2 powi (bitlen q - 1)" by simp
  have "of_int p / of_int q \<le> of_int p / (2::rat) powi (bitlen q - 1)"
  proof (rule divide_left_mono [OF lq])
    show "(0::rat) \<le> of_int p" using p by simp
    show "(0::rat) < of_int q * 2 powi (bitlen q - 1)" using q lq0 by (intro mult_pos_pos) simp_all
  qed
  also have "\<dots> < 2 powi (bitlen p) / 2 powi (bitlen q - 1)"
    using up lq0 by (intro divide_strict_right_mono)
  also have "\<dots> = 2 powi (d + 1)"
  proof -
    have "d + 1 = bitlen p - (bitlen q - 1)" by (simp add: d_def)
    then have "(2::rat) powi (d + 1) = 2 powi (bitlen p - (bitlen q - 1))" by (rule arg_cong)
    also have "\<dots> = 2 powi (bitlen p) / 2 powi (bitlen q - 1)"
      by (rule power_int_diff) simp
    finally show ?thesis by (rule sym)
  qed
  finally have high: "x < 2 powi (d + 1)" using x by simp
  have "expo x = (if 2 powi d \<le> x then d else d - 1)"
    by (simp add: expo_def pq d_def Let_def)
  then show ?thesis using high by (cases "2 powi d \<le> x") simp_all
qed

lemma rne_err: "\<bar>of_int (rne x) - x\<bar> \<le> 1 / 2"
proof -
  have "of_int \<lfloor>x\<rfloor> \<le> x" "x < of_int \<lfloor>x\<rfloor> + 1" by linarith+
  then show ?thesis by (auto simp: rne_def Let_def abs_le_iff)
qed

lemma rne_of_int: "rne (of_int k) = k"
  by (simp add: rne_def)

lemma rne_nonneg: "0 \<le> x \<Longrightarrow> 0 \<le> rne x"
  by (auto simp: rne_def Let_def)

lemma fl_error: "\<bar>fl x - x\<bar> \<le> \<bar>x\<bar> / 2 ^ 53"
proof (cases "x = 0")
  case True
  then show ?thesis by (simp add: fl_def)
next
  case False
  define e where "e = expo \<bar>x\<bar> - 52"
  define u :: rat where "u = 2 powi e"
  have u: "0 < u" by (simp add: u_def)
  have "2 powi (expo \<bar>x\<bar>) \<le> \<bar>x\<bar>" using False by (intro expo_le) simp
  moreover have "(2::rat) powi (expo \<bar>x\<bar>) = u * 2 ^ 52"
    by (simp add: u_def e_def power_int_diff)
  ultimately have ux: "u * 2 ^ 52 \<le> \<bar>x\<bar>" by simp
  have flx: "fl x = of_int (rne (x / u)) * u"
    using False by (simp add: fl_def Let_def e_def u_def)
  have "\<bar>fl x - x\<bar> = \<bar>of_int (rne (x / u)) - x / u\<bar> * u"
  proof -
    have "fl x - x = (of_int (rne (x / u)) - x / u) * u"
      using u by (simp add: flx field_simps)
    then show ?thesis using u by (simp add: abs_mult)
  qed
  also have "\<dots> \<le> 1 / 2 * u"
    using rne_err[of "x / u"] u by (intro mult_right_mono) simp_all
  also have "\<dots> = (u * 2 ^ 52) / 2 ^ 53" by simp
  also have "\<dots> \<le> \<bar>x\<bar> / 2 ^ 53" using ux by (intro divide_right_mono) simp_all
  finally show ?thesis .
qed

lemma fl_nonneg: "0 \<le> x \<Longrightarrow> 0 \<le> fl x"
  by (auto simp: fl_def Let_def intro!: mult_nonneg_nonneg rne_nonneg divide_nonneg_nonneg)

text \<open>The number written \<open>0.1\<close>.\<close>

lemma fl_tenth: "fl (1 / 10) = 3602879701896397 / 2 ^ 55"
  by code_simp

lemma fl_of_int:
  assumes "\<bar>n\<bar> < 2 ^ 53"
  shows "fl (of_int n) = of_int n"
proof (cases "n = 0")
  case True
  then show ?thesis by (simp add: fl_def)
next
  case False
  define E where "E = expo \<bar>of_int n\<bar>"
  have lo: "(2::rat) powi E \<le> \<bar>of_int n\<bar>"
    unfolding E_def using False by (intro expo_le) simp
  have hi: "\<bar>of_int n :: rat\<bar> < 2 ^ 53"
  proof -
    have "(of_int \<bar>n\<bar> :: rat) < of_int (2 ^ 53)" using assms by (simp only: of_int_less_iff)
    then show ?thesis by simp
  qed
  have E: "E \<le> 52"
  proof (rule ccontr)
    assume "\<not> E \<le> 52"
    then have "53 \<le> E" by simp
    then have "(2::rat) powi 53 \<le> 2 powi E" by (intro power_int_increasing) simp_all
    then show False using lo hi by simp
  qed
  define m where "m = nat (52 - E)"
  have pe: "(2::rat) powi (E - 52) = 1 / 2 ^ m"
    using E by (simp add: m_def power_int_def field_simps)
  have "of_int n / (2::rat) powi (E - 52) = of_int (n * 2 ^ m)"
    by (simp add: pe)
  then have "rne (of_int n / (2::rat) powi (E - 52)) = n * 2 ^ m"
    by (simp only: rne_of_int)
  then show ?thesis
    using False by (simp add: fl_def Let_def E_def[symmetric] pe)
qed

lemma floor_fdiv:
  assumes d: "0 \<le> d" "d < 2 ^ 53" and n: "0 < n"
  shows "Math_floor (fdiv (of_int d) (of_int n)) = d div n"
proof -
  define y :: rat where "y = of_int d / of_int n"
  define k where "k = d div n"
  define r where "r = d mod n"
  have dk: "d = k * n + r" by (simp add: k_def r_def)
  have r: "0 \<le> r" "r < n" using n by (simp_all add: r_def)
  have k0: "0 \<le> k" using d n by (simp add: k_def pos_imp_zdiv_nonneg_iff)
  have nq: "(0::rat) < of_int n" using n by simp
  have y: "y = of_int k + of_int r / of_int n"
    using n by (simp add: y_def dk add_divide_distrib)
  have dq: "(of_int d :: rat) < 2 ^ 53"
  proof -
    have "(of_int d :: rat) < of_int (2 ^ 53)" using d by (simp only: of_int_less_iff)
    then show ?thesis by simp
  qed
  have y0: "0 \<le> y" using d n by (simp add: y_def)
  have err: "\<bar>fl y - y\<bar> \<le> y / 2 ^ 53" using fl_error[of y] y0 by simp
  have small: "y / 2 ^ 53 < 1 / of_int n"
  proof -
    have "y / 2 ^ 53 = (of_int d / 2 ^ 53) / of_int n" by (simp add: y_def)
    also have "\<dots> < 1 / of_int n"
      using dq nq by (intro divide_strict_right_mono) simp_all
    finally show ?thesis .
  qed
  have "of_int k \<le> fl y \<and> fl y < of_int k + 1"
  proof (cases "r = 0")
    case True
    have "k \<le> d"
    proof -
      have "k * 1 \<le> k * n" using k0 n by (intro mult_left_mono) simp_all
      then show ?thesis using dk True by simp
    qed
    then have "\<bar>k\<bar> < 2 ^ 53" using k0 d by simp
    then have "fl (of_int k) = of_int k" by (rule fl_of_int)
    then show ?thesis using True y by simp
  next
    case False
    then have "1 \<le> r" using r by simp
    then have "(1::rat) \<le> of_int r" by (simp only: of_int_1_le_iff)
    then have lo: "of_int k + 1 / of_int n \<le> y"
      using nq by (simp add: y divide_right_mono)
    have "r \<le> n - 1" using r by simp
    then have "(of_int r :: rat) \<le> of_int (n - 1)" by (simp only: of_int_le_iff)
    then have "of_int r / of_int n \<le> (of_int n - 1) / (of_int n :: rat)"
      using nq by (intro divide_right_mono) simp_all
    also have "\<dots> = 1 - 1 / of_int n" using nq by (simp add: field_simps)
    finally have hi: "y \<le> of_int k + 1 - 1 / of_int n" by (simp add: y)
    define a where "a = y / 2 ^ 53"
    define b :: rat where "b = 1 / of_int n"
    have "fl y - y \<le> a" "y - fl y \<le> a" using err by (simp_all only: a_def abs_le_iff) linarith+
    moreover have "a < b" using small by (simp only: a_def b_def)
    moreover have "of_int k + b \<le> y" "y \<le> of_int k + 1 - b" using lo hi by (simp_all only: b_def)
    ultimately show ?thesis by linarith
  qed
  then have "\<lfloor>fl y\<rfloor> = k" by (simp add: floor_unique)
  then show ?thesis by (simp add: Math_floor_def fdiv_def y_def k_def)
qed

lemma js_plus_exact: "\<bar>a + b\<bar> < 2 ^ 53 \<Longrightarrow> js_plus a b = a + b"
proof -
  assume "\<bar>a + b\<bar> < 2 ^ 53"
  then have "fl (of_int (a + b)) = of_int (a + b)" by (rule fl_of_int)
  then show ?thesis unfolding js_plus_def by (simp only: floor_of_int)
qed

lemma js_times_exact: "\<bar>a * b\<bar> < 2 ^ 53 \<Longrightarrow> js_times a b = a * b"
proof -
  assume "\<bar>a * b\<bar> < 2 ^ 53"
  then have "fl (of_int (a * b)) = of_int (a * b)" by (rule fl_of_int)
  then show ?thesis unfolding js_times_def by (simp only: floor_of_int)
qed

section \<open>The week window\<close>

lemma Day_of_day: "0 \<le> r \<Longrightarrow> r < msPerDay \<Longrightarrow> Day (D * msPerDay + r) = D"
  by (simp add: Day_def msPerDay_def)

lemma Day_of_midnight: "Day (D * msPerDay) = D"
  by (simp add: Day_def msPerDay_def)

lemma TimeWithinDay_of_midnight: "TimeWithinDay (D * msPerDay) = 0"
  by (simp add: TimeWithinDay_def msPerDay_def)

lemma TimeWithinDay_range: "0 \<le> TimeWithinDay l \<and> TimeWithinDay l < msPerDay"
  by (simp add: TimeWithinDay_def msPerDay_def)

lemma TimeClip_in_range: "in_range t \<Longrightarrow> TimeClip t = Time t"
  by (simp add: TimeClip_def in_range_def)

lemma target_monday_is_monday: "(target_monday rt t0 k + 4) mod 7 = 1"
proof -
  have "(d + 4) mod 7 = 0 \<Longrightarrow> (d + - 6 + 7 * k + 4) mod 7 = 1" for d :: int
    by presburger
  moreover have "(d + 4) mod 7 \<noteq> 0 \<Longrightarrow> (d + (1 - (d + 4) mod 7) + 7 * k + 4) mod 7 = 1" for d :: int
    by presburger
  ultimately show ?thesis by (simp add: target_monday_def Let_def)
qed

lemma setDate_argument:
  assumes k: "\<bar>7 * k\<bar> < 2 ^ 52" and g: "1 \<le> g" "g \<le> 31" and w: "0 \<le> w" "w < 7"
  shows "add_num (add_num (Num g) (if Num w = Num 0 then Num (- 6) else sub_num (Num 1) (Num w)))
                 (mul_num (Num k) (Num 7)) =
         Num (g + (if w = 0 then - 6 else 1 - w) + 7 * k)"
proof -
  define m where "m = (if w = 0 then - 6 else 1 - w)"
  have m: "- 6 \<le> m" "m \<le> 1" using w by (simp_all add: m_def)
  have "\<bar>1 + - w\<bar> < 2 ^ 53" using w by simp
  then have "js_plus 1 (- w) = 1 + - w" by (rule js_plus_exact)
  then have 1: "(if Num w = Num 0 then Num (- 6) else sub_num (Num 1) (Num w)) = Num m"
    by (simp add: m_def)
  have "\<bar>g + m\<bar> < 2 ^ 53" using g m by simp
  then have 2: "js_plus g m = g + m" by (rule js_plus_exact)
  have "\<bar>k * 7\<bar> < 2 ^ 53" using k by simp
  then have 3: "js_times k 7 = k * 7" by (rule js_times_exact)
  have "\<bar>(g + m) + k * 7\<bar> < 2 ^ 53" using g m k by simp
  then have 4: "js_plus (g + m) (k * 7) = (g + m) + k * 7" by (rule js_plus_exact)
  show ?thesis
    unfolding 1 by (simp add: 2 3 4 m_def [symmetric])
qed

lemma window_regular:
  assumes "regular_week rt t0 k"
  shows "week_window rt (Time t0) k =
           (Time (UTC rt (target_monday rt t0 k * msPerDay)),
            Time (UTC rt ((target_monday rt t0 k + 6) * msPerDay + 86399999)))"
proof -
  define l0 where "l0 = LocalTime rt t0"
  define w where "w = (Day l0 + 4) mod 7"
  define m where "m = (if w = 0 then - 6 else 1 - w)"
  define g where "g = DateFromTime rt l0"
  define D where "D = target_monday rt t0 k"
  define g2 where "g2 = DateFromTime rt (D * msPerDay)"
  define u1 where "u1 = UTC rt (D * msPerDay + TimeWithinDay l0)"
  define a where "a = UTC rt (D * msPerDay)"
  define u3 where "u3 = UTC rt ((D + 6) * msPerDay)"
  define b where "b = UTC rt ((D + 6) * msPerDay + 86399999)"
  have R: "\<bar>7 * k\<bar> < 2 ^ 52" "1 \<le> g" "g \<le> 31" "1 \<le> g2" "g2 \<le> 31"
    "in_range u1" "Day (LocalTime rt u1) = Day (D * msPerDay + TimeWithinDay l0)"
    "in_range a" "LocalTime rt a = D * msPerDay"
    "in_range u3" "Day (LocalTime rt u3) = Day ((D + 6) * msPerDay)"
    "in_range b"
    using assms
    by (simp_all add: regular_week_def Let_def day_of_month_def keeps_day_def exists_local_def
        l0_def g_def D_def g2_def u1_def a_def u3_def b_def)
  have w: "0 \<le> w" "w < 7" by (simp_all add: w_def)
  have D: "D = Day l0 + m + 7 * k"
    by (simp add: D_def target_monday_def Let_def l0_def w_def m_def)
  have gd: "getDay rt (Time t0) = Num w" by (simp add: w_def l0_def)
  have gt: "getDate rt (Time t0) = Num g" by (simp add: g_def l0_def)
  have arg: "add_num (add_num (getDate rt (Time t0))
                 (if getDay rt (Time t0) = Num 0 then Num (- 6) else sub_num (Num 1) (getDay rt (Time t0))))
               (mul_num (Num k) (Num 7)) = Num (g + m + 7 * k)"
    unfolding gd gt m_def using R(1) R(2) R(3) w by (rule setDate_argument)
  have e1: "Day l0 - g + 1 + (g + m + 7 * k - 1) = D" by (simp add: D)
  have "setDate rt (Time t0) (Num (g + m + 7 * k)) =
        TimeClip (UTC rt ((Day l0 - g + 1 + (g + m + 7 * k - 1)) * msPerDay + TimeWithinDay l0))"
    by (simp only: setDate.simps Let_def l0_def g_def)
  then have s1: "setDate rt (Time t0) (Num (g + m + 7 * k)) = Time u1"
    unfolding e1 using R(6) by (simp only: u1_def [symmetric] TimeClip_in_range)
  have d1: "Day (LocalTime rt u1) = D"
    using R(7) TimeWithinDay_range [of l0] by (simp add: Day_of_day)
  have "setHours rt (Time u1) 0 0 0 0 = TimeClip (UTC rt (D * msPerDay))"
    by (simp add: d1)
  then have s2: "setHours rt (Time u1) 0 0 0 0 = Time a"
    using R(8) by (simp only: a_def [symmetric] TimeClip_in_range)
  have "js_plus g2 6 = g2 + 6" using R(4,5) by (intro js_plus_exact) simp
  then have arg2: "add_num (getDate rt (Time a)) (Num 6) = Num (g2 + 6)"
    by (simp add: R(9) g2_def [symmetric])
  have e3: "(Day (D * msPerDay) - g2 + 1 + (g2 + 6 - 1)) * msPerDay + TimeWithinDay (D * msPerDay) =
        (D + 6) * msPerDay"
    by (simp add: Day_of_midnight TimeWithinDay_of_midnight)
  have "setDate rt (Time a) (Num (g2 + 6)) =
        TimeClip (UTC rt ((Day (D * msPerDay) - g2 + 1 + (g2 + 6 - 1)) * msPerDay +
                          TimeWithinDay (D * msPerDay)))"
    by (simp only: setDate.simps Let_def R(9) g2_def)
  then have s3: "setDate rt (Time a) (Num (g2 + 6)) = Time u3"
    unfolding e3 using R(10) by (simp only: u3_def [symmetric] TimeClip_in_range)
  have d3: "Day (LocalTime rt u3) = D + 6"
    using R(11) by (simp add: Day_of_midnight)
  have "setHours rt (Time u3) 23 59 59 999 = TimeClip (UTC rt ((D + 6) * msPerDay + 86399999))"
    by (simp add: d3)
  then have s4: "setHours rt (Time u3) 23 59 59 999 = Time b"
    using R(12) by (simp only: b_def [symmetric] TimeClip_in_range)
  show ?thesis
    unfolding week_window_def Let_def arg s1 s2 arg2 s3 s4
    by (simp add: a_def b_def D_def)
qed

lemma getWeeklyEntries_request:
  assumes "week_window rt today k = (Time a, Time b)"
  shows "sent (snd (getWeeklyEntries rt rm today k c)) =
           sent c @ [GetTimeEntries (ISOString rt a) (ISOString rt b)]"
  using assms
  by (simp add: getWeeklyEntries_def getEntriesForDateRange_def await_def result_def api_def
      throw_def return_def Let_def split: sum.split prod.split)

lemma getWeeklyEntries_invalid:
  assumes "fst (week_window rt today k) = Invalid_Date"
  shows "getWeeklyEntries rt rm today k c = (Inl (RangeError ''Invalid time value''), c)"
  using assms
  by (simp add: getWeeklyEntries_def getEntriesForDateRange_def await_def result_def Let_def)

lemma regular_week_sample: "regular_week rt0 1704103200000 0"
  by (simp add: regular_week_def Let_def target_monday_def day_of_month_def keeps_day_def
      exists_local_def in_range_def rt0_def Day_def TimeWithinDay_def msPerDay_def)

lemma window_now0:
  "week_window rt0 now0 0 = (monday0, sunday0)"
  using window_regular [OF regular_week_sample]
  by (simp add: now0_def monday0_def sunday0_def target_monday_def rt0_def Day_def msPerDay_def)

lemma window_tehran:
  "week_window rt_tehran today_tehran 0 = (Time 1616358600000, Time 1616959799999)"
  "week_window rt_tehran today_tehran (- 1) = (Time 1615753800000, Time 1616358599999)"
  by (simp_all add: week_window_def Let_def js_plus_exact js_times_exact TimeClip_def Day_def
      TimeWithinDay_def msPerDay_def rt_tehran_def rt0_def today_tehran_def)

lemma window_out_of_range:
  "week_window rt0 now0 20000000 = (Invalid_Date, Invalid_Date)"
  by (simp add: week_window_def Let_def js_plus_exact js_times_exact TimeClip_def Day_def
      TimeWithinDay_def msPerDay_def rt0_def now0_def)

text \<open>
  C1, two instances.  In the time zone of Tehran the week of Monday 22 March 2021 starts
  at 01:00:00.000, because that day has no midnight.  With the week offset 20000000 the
  window is out of the range of \<open>Date\<close>: both of its dates are invalid, and
  \<open>getWeeklyEntries\<close> throws before it sends a request.
\<close>

theorem week_window_counterexample:
  "week_window rt_tehran today_tehran 0 = (Time 1616358600000, Time 1616959799999) \<and>
   getDay rt_tehran (Time 1616358600000) = Num 1 \<and>
   map_option TimeWithinDay (local_time rt_tehran (Time 1616358600000)) = Some 3600000 \<and>
   week_window rt0 now0 20000000 = (Invalid_Date, Invalid_Date) \<and>
   getWeeklyEntries rt0 rm0 now0 20000000 c0 = (Inl (RangeError ''Invalid time value''), c0)"
  by (simp add: window_tehran window_out_of_range getWeeklyEntries_invalid)
     (simp add: rt_tehran_def Day_def TimeWithinDay_def msPerDay_def)

text \<open>
  C1.  For a clock \<open>t0\<close> and a week offset \<open>k\<close> whose week is regular (the dates are in
  the range of \<open>Date\<close>, and the local times 00:00:00.000 of the Monday and 23:59:59.999 of
  the Sunday exist in the time zone), the window's start is a Monday at 00:00:00.000 local
  time, namely the Monday of the clock's week moved by \<open>k\<close> weeks, and its end is the day
  six days later at 23:59:59.999 local time; and the one request that \<open>getWeeklyEntries\<close>
  sends asks for the entries from that start to that end.
\<close>

theorem week_window_monday_to_sunday:
  assumes "regular_week rt t0 k"
  shows "getDay rt (fst (week_window rt (Time t0) k)) = Num 1 \<and>
         local_time rt (fst (week_window rt (Time t0) k)) = Some (target_monday rt t0 k * msPerDay) \<and>
         local_time rt (snd (week_window rt (Time t0) k)) =
           Some ((target_monday rt t0 k + 6) * msPerDay +
                 (23 * 3600000 + 59 * 60000 + 59 * 1000 + 999)) \<and>
         (\<exists>start_date end_date.
            toISOString rt (fst (week_window rt (Time t0) k)) = Inr start_date \<and>
            toISOString rt (snd (week_window rt (Time t0) k)) = Inr end_date \<and>
            sent (snd (getWeeklyEntries rt rm (Time t0) k c)) =
              sent c @ [GetTimeEntries start_date end_date])"
proof -
  note W = window_regular [OF assms]
  have L: "LocalTime rt (UTC rt (target_monday rt t0 k * msPerDay)) = target_monday rt t0 k * msPerDay"
    "LocalTime rt (UTC rt ((target_monday rt t0 k + 6) * msPerDay + 86399999)) =
       (target_monday rt t0 k + 6) * msPerDay + 86399999"
    using assms by (simp_all add: regular_week_def Let_def exists_local_def)
  have 1: "getDay rt (fst (week_window rt (Time t0) k)) = Num 1"
    by (simp add: W L Day_of_midnight target_monday_is_monday)
  have 2: "local_time rt (fst (week_window rt (Time t0) k)) = Some (target_monday rt t0 k * msPerDay)"
    by (simp add: W L)
  have 3: "local_time rt (snd (week_window rt (Time t0) k)) =
           Some ((target_monday rt t0 k + 6) * msPerDay +
                 (23 * 3600000 + 59 * 60000 + 59 * 1000 + 999))"
    by (simp add: W L)
  have 4: "\<exists>start_date end_date.
            toISOString rt (fst (week_window rt (Time t0) k)) = Inr start_date \<and>
            toISOString rt (snd (week_window rt (Time t0) k)) = Inr end_date \<and>
            sent (snd (getWeeklyEntries rt rm (Time t0) k c)) =
              sent c @ [GetTimeEntries start_date end_date]"
    using getWeeklyEntries_request [OF W] by (simp add: W)
  show ?thesis using 1 2 3 4 by blast
qed

theorem week_window_monday_to_sunday_witness:
  "regular_week rt0 1704103200000 0 \<and>
   getDay rt0 (fst (week_window rt0 now0 0)) = Num 1 \<and>
   local_time rt0 (fst (week_window rt0 now0 0)) = Some (19723 * msPerDay) \<and>
   local_time rt0 (snd (week_window rt0 now0 0)) = Some (19729 * msPerDay + 86399999)"
  using week_window_monday_to_sunday [OF regular_week_sample, of rm0 c0] regular_week_sample
  by (simp add: now0_def target_monday_def rt0_def Day_def msPerDay_def)




section \<open>Stopping with no running entry\<close>

lemma stopTimer_none:
  assumes "r_current rm = Inr None"
  shows "stopTimer rm c =
           (Inl (Error ''No timer is currently running''), c\<lparr>sent := sent c @ [GetCurrentTimeEntry]\<rparr>)"
  using assms by (simp add: stopTimer_def getCurrentEntry_def await_def api_def throw_def)

text \<open>
  C7.  When the remote service reports no running entry, \<open>stopTimer\<close> throws the error
  with the message \<open>No timer is currently running\<close> after the one request for the current
  entry; the tool call fails with that message, and no request to the stop endpoint is
  sent.
\<close>

theorem stop_without_running_entry:
  assumes "r_current rm = Inr None"
  shows "stopTimer rm c =
           (Inl (Error ''No timer is currently running''), c\<lparr>sent := sent c @ [GetCurrentTimeEntry]\<rparr>) \<and>
         call_tool rt rm now now_ms ''toggl_stop'' args c =
           (Inl (McpError InternalError ''No timer is currently running''),
            c\<lparr>sent := sent c @ [GetCurrentTimeEntry]\<rparr>) \<and>
         filter is_stop (sent (snd (call_tool rt rm now now_ms ''toggl_stop'' args c))) =
           filter is_stop (sent c)"
proof -
  have "toggl_stop rt rm c =
      (Inl (Error ''No timer is currently running''), c\<lparr>sent := sent c @ [GetCurrentTimeEntry]\<rparr>)"
    by (simp add: toggl_stop_def await_def stopTimer_none [OF assms])
  then have "call_tool rt rm now now_ms ''toggl_stop'' args c =
           (Inl (McpError InternalError ''No timer is currently running''),
            c\<lparr>sent := sent c @ [GetCurrentTimeEntry]\<rparr>)"
    by (simp add: call_tool_def message_or_default_def)
  then show ?thesis by (simp add: stopTimer_none [OF assms])
qed

theorem stop_without_running_entry_witness:
  "call_tool rt0 rm0 now0 0 ''toggl_stop'' None c0 =
     (Inl (McpError InternalError ''No timer is currently running''),
      \<lparr>workspaceId = None, sent = [GetCurrentTimeEntry]\<rparr>)"
  using stop_without_running_entry [of rm0 c0 rt0 now0 0 None]
  by (simp add: rm0_def c0_def)

section \<open>The total of today's entries\<close>

lemma foldl_total_NaN:
  "foldl (\<lambda>sum entry. add_num sum (abs_num (to_number (duration entry)))) NaN es = NaN"
  by (induction es) simp_all

lemma abs_seconds_nonneg: "0 \<le> abs_seconds e"
  by (simp add: abs_seconds_def split: field.split)

lemma sum_abs_seconds_nonneg: "0 \<le> sum_list (map abs_seconds es)"
  by (auto intro!: sum_list_nonneg simp: abs_seconds_nonneg)

lemma foldl_total_Num:
  assumes "0 \<le> a" and "a + sum_list (map abs_seconds es) < 2 ^ 53"
  shows "foldl (\<lambda>sum entry. add_num sum (abs_num (to_number (duration entry)))) (Num a) es =
     (if Undefined \<in> duration ` set es then NaN else Num (a + sum_list (map abs_seconds es)))"
  using assms
proof (induction es arbitrary: a)
  case Nil
  then show ?case by simp
next
  case (Cons e es)
  note rest = sum_abs_seconds_nonneg [of es]
  show ?case
  proof (cases "duration e")
    case Undefined
    then show ?thesis by (simp add: foldl_total_NaN image_iff)
  next
    case Null
    then have e: "abs_seconds e = 0" by (simp add: abs_seconds_def)
    have "\<bar>a + 0\<bar> < 2 ^ 53" using Cons.prems rest by (simp add: e)
    then have "js_plus a 0 = a + 0" by (rule js_plus_exact)
    then show ?thesis using Null e Cons.IH [of a] Cons.prems by simp
  next
    case (Val d)
    then have e: "abs_seconds e = \<bar>d\<bar>" by (simp add: abs_seconds_def)
    have "\<bar>a + \<bar>d\<bar>\<bar> < 2 ^ 53" using Cons.prems rest by (simp add: e)
    then have "js_plus a \<bar>d\<bar> = a + \<bar>d\<bar>" by (rule js_plus_exact)
    then show ?thesis using Val e Cons.IH [of "a + \<bar>d\<bar>"] Cons.prems by (simp add: add.assoc)
  qed
qed

text \<open>
  C8.  For a non-empty list of entries the total that \<open>toggl_today\<close> reports is the sum
  of \<open>Math.abs(entry.duration)\<close> with no guard: an entry running since \<open>t\<close> (duration
  \<open>-t\<close>) adds the whole of \<open>t\<close>, and an entry without a duration makes the total \<open>NaN\<close>
  (a \<open>null\<close> duration counts as 0).  The sum is the exact one as long as it is below
  \<open>2 ^ 53\<close>, where a JavaScript number holds every whole number of seconds.  The text ends
  with the hours and minutes of that total.
\<close>

theorem today_total_unguarded:
  assumes "getTodayEntries rt rm now c = (Inr (Some es), c')" and "es \<noteq> []"
    and "sum_list (map abs_seconds es) + \<bar>t\<bar> < 2 ^ 53"
  shows "today_total es =
           (if Undefined \<in> duration ` set es then NaN else Num (sum_list (map abs_seconds es))) \<and>
         today_total (es @ [e\<lparr>duration := Val (- t)\<rparr>]) =
           (if Undefined \<in> duration ` set es then NaN
            else Num (sum_list (map abs_seconds es) + \<bar>t\<bar>)) \<and>
         today_total (es @ [e\<lparr>duration := Undefined\<rparr>]) = NaN \<and>
         (\<exists>entryList. toggl_today rt rm now c =
            (Inr (''Today's entries:'' @ nl @ entryList @ nl @ nl @ ''Total: '' @
                  show_number rt (floor_div_num (today_total es) 3600) @ ''h '' @
                  show_number rt (floor_div_num (rem_num (today_total es) 3600) 60) @ ''m''), c'))"
proof -
  have b: "0 + sum_list (map abs_seconds es) < 2 ^ 53" using assms(3) by simp
  have 1: "today_total es =
      (if Undefined \<in> duration ` set es then NaN else Num (sum_list (map abs_seconds es)))"
    using foldl_total_Num [OF _ b] by (simp add: today_total_def)
  have "abs_seconds (e\<lparr>duration := Val (- t)\<rparr>) = \<bar>t\<bar>" by (simp add: abs_seconds_def)
  then have b': "0 + sum_list (map abs_seconds (es @ [e\<lparr>duration := Val (- t)\<rparr>])) < 2 ^ 53"
    using assms(3) by simp
  have 2: "today_total (es @ [e\<lparr>duration := Val (- t)\<rparr>]) =
           (if Undefined \<in> duration ` set es then NaN
            else Num (sum_list (map abs_seconds es) + \<bar>t\<bar>))"
    using foldl_total_Num [OF _ b'] unfolding today_total_def
    by (simp add: abs_seconds_def)
  have 3: "today_total (es @ [e\<lparr>duration := Undefined\<rparr>]) = NaN"
    by (simp add: today_total_def)
  have 4: "\<exists>entryList. toggl_today rt rm now c =
            (Inr (''Today's entries:'' @ nl @ entryList @ nl @ nl @ ''Total: '' @
                  show_number rt (floor_div_num (today_total es) 3600) @ ''h '' @
                  show_number rt (floor_div_num (rem_num (today_total es) 3600) 60) @ ''m''), c')"
    using assms(1,2) by (simp add: toggl_today_def await_def return_def Let_def)
  show ?thesis using 1 2 3 4 by blast
qed

theorem today_total_unguarded_witness:
  "today_total [e_running] = Num 1700000000 \<and>
   today_total ([e_running] @ [e_running\<lparr>duration := Val (- 1700003600)\<rparr>]) = Num 3400003600 \<and>
   today_total ([e_running] @ [e_running\<lparr>duration := Undefined\<rparr>]) = NaN"
proof -
  have h: "getTodayEntries rt0 rm_today now0 c0 =
      (Inr (Some [e_running]),
       \<lparr>workspaceId = Some 7,
        sent = [GetMe, GetTimeEntries ''2024-01-01T00:00:00.000Z'' ''2024-01-01T10:00:00.000Z'']\<rparr>)"
    by (simp add: getTodayEntries_def getWorkspaceId_def await_def api_def result_def rm_today_def
        rm0_def c0_def rt0_def Let_def now0_def TimeClip_def Day_def msPerDay_def)
  have b: "sum_list (map abs_seconds [e_running]) + \<bar>1700003600\<bar> < 2 ^ 53"
    by (simp add: e_running_def abs_seconds_def)
  show ?thesis
    using today_total_unguarded [OF h _ b, where e = e_running]
    by (simp add: e_running_def abs_seconds_def)
qed

section \<open>The two weekly tools\<close>

text \<open>
  C5.  With the same clock, remote service and client state, \<open>toggl_last_week\<close> returns
  what \<open>toggl_weekly\<close> returns for \<open>week_offset = -1\<close>: the same text, or the same error.
\<close>

theorem last_week_is_weekly_minus_one:
  "toggl_weekly rt rm today (Some (obj(''week_offset'' \<mapsto> JNum (- 1)))) = toggl_last_week rt rm today \<and>
   call_tool rt rm today now_ms ''toggl_weekly'' (Some (obj(''week_offset'' \<mapsto> JNum (- 1)))) c =
   call_tool rt rm today now_ms ''toggl_last_week'' args c"
proof -
  have "toggl_weekly rt rm today (Some (obj(''week_offset'' \<mapsto> JNum (- 1)))) = toggl_last_week rt rm today"
    by (simp add: toggl_weekly_def toggl_last_week_def WeeklyEntriesSchema_parse_def)
  then show ?thesis by (simp add: call_tool_def)
qed

section \<open>Unrecognized arguments\<close>

lemma parse_start_ok:
  assumes "obj ''description'' = Some (JStr d)" and "obj ''project_name'' = map_option JStr p"
  shows "StartTimerSchema_parse (Some obj) = Inr (d, p)"
  using assms by (cases p) (simp_all add: StartTimerSchema_parse_def)

lemma parse_delete_ok:
  assumes "obj ''entry_id'' = Some (JNum n)"
  shows "DeleteEntrySchema_parse (Some obj) = Inr n"
  using assms by (simp add: DeleteEntrySchema_parse_def)

lemma api_no_ZodError: "\<not> is_ZodError (fst (api rq resp c))"
  by (simp add: api_def is_ZodError_def split: sum.split prod.split)

lemma getWorkspaceId_no_ZodError: "\<not> is_ZodError (fst (getWorkspaceId rm c))"
  by (simp add: getWorkspaceId_def await_def api_def is_ZodError_def Let_def
      split: sum.split prod.split option.split)

lemma await_no_ZodError:
  assumes "\<And>c. \<not> is_ZodError (fst (m c))" and "\<And>a c. \<not> is_ZodError (fst (f a c))"
  shows "\<not> is_ZodError (fst (await m f c))"
proof (cases "m c")
  case (Pair r c')
  show ?thesis
  proof (cases r)
    case (Inl e)
    then show ?thesis using assms(1) [of c] Pair by (simp add: await_def is_ZodError_def)
  next
    case (Inr a)
    then show ?thesis using assms(2) [of a c'] Pair by (simp add: await_def)
  qed
qed

lemma result_toISOString_no_ZodError: "\<not> is_ZodError (fst (result (toISOString rt d) c))"
  by (cases d) (simp_all add: result_def is_ZodError_def)

lemma return_no_ZodError: "\<not> is_ZodError (fst (return a c))"
  by (simp add: return_def is_ZodError_def)

lemma startTimer_no_ZodError: "\<not> is_ZodError (fst (startTimer rt rm now d p c))"
  unfolding startTimer_def
  by (intro await_no_ZodError getWorkspaceId_no_ZodError result_toISOString_no_ZodError
      api_no_ZodError)

lemma getProjects_no_ZodError: "\<not> is_ZodError (fst (getProjects rm c))"
  unfolding getProjects_def
  by (intro await_no_ZodError getWorkspaceId_no_ZodError api_no_ZodError)

lemma start_after_validation_no_ZodError:
  "\<not> is_ZodError (fst (start_after_validation rt rm now d p c))"
proof -
  have lookup: "\<not> is_ZodError (fst (await (getProjects rm) (\<lambda>projects.
              case projects of
                None \<Rightarrow> throw (TypeError ''Cannot read properties of null (reading 'find')'')
              | Some ps \<Rightarrow>
                  return (map_option p_id
                    (find (\<lambda>p. toLowerCase rt (p_name p) = toLowerCase rt pn) ps))) c))" for pn c
    by (intro await_no_ZodError getProjects_no_ZodError)
       (simp add: throw_def return_def is_ZodError_def split: option.split)
  show ?thesis
    unfolding start_after_validation_def
    by (intro await_no_ZodError startTimer_no_ZodError return_no_ZodError)
       (simp add: lookup return_no_ZodError split: option.split)
qed

lemma deleteEntry_no_ZodError: "\<not> is_ZodError (fst (deleteEntry rt rm n c))"
  unfolding deleteEntry_def
  by (intro await_no_ZodError getWorkspaceId_no_ZodError api_no_ZodError return_no_ZodError)

lemma translated_no_invalid_params:
  assumes "\<not> is_ZodError (fst (h c))"
  shows "\<not> is_invalid_params
             (fst (case h c of (Inl e, c') \<Rightarrow> (Inl (translate rt e), c')
                   | (Inr text, c') \<Rightarrow> (Inr text, c')))"
proof (cases "h c")
  case (Pair r c')
  show ?thesis
  proof (cases r)
    case (Inl e)
    have "\<not> is_ZodError (Inl e :: exn + 'a)" using assms Pair Inl by simp
    then have "\<not> is_invalid_params (Inl (translate rt e) :: exn + 'a)"
      by (cases e) (simp_all add: is_invalid_params_def is_ZodError_def)
    then show ?thesis using Pair Inl by simp
  next
    case (Inr a)
    then show ?thesis using Pair by (simp add: is_invalid_params_def)
  qed
qed

text \<open>
  C9.  When the arguments of \<open>toggl_start\<close> hold a string \<open>description\<close> and, if any, a
  string \<open>project_name\<close>, and those of \<open>toggl_delete\<close> a number \<open>entry_id\<close>, validation
  succeeds whatever other keys are present: the tool goes on to look up the project and
  start the timer with that description, or to delete that entry; the call does not fail
  with the invalid-parameters error; and it returns what it returns without the other keys.
\<close>

theorem extra_arguments_ignored:
  assumes "obj ''description'' = Some (JStr d)" and "obj ''project_name'' = map_option JStr p"
    and "obj' ''entry_id'' = Some (JNum n)"
  shows "StartTimerSchema_parse (Some obj) = Inr (d, p) \<and>
         toggl_start rt rm now (Some obj) = start_after_validation rt rm now d p \<and>
         \<not> is_invalid_params (fst (call_tool rt rm now now_ms ''toggl_start'' (Some obj) c)) \<and>
         call_tool rt rm now now_ms ''toggl_start'' (Some obj) c =
           call_tool rt rm now now_ms ''toggl_start''
             (Some (obj |` {''description'', ''project_name''})) c \<and>
         DeleteEntrySchema_parse (Some obj') = Inr n \<and>
         toggl_delete rt rm (Some obj') = deleteEntry rt rm n \<and>
         \<not> is_invalid_params (fst (call_tool rt rm now now_ms ''toggl_delete'' (Some obj') c)) \<and>
         call_tool rt rm now now_ms ''toggl_delete'' (Some obj') c =
           call_tool rt rm now now_ms ''toggl_delete'' (Some (obj' |` {''entry_id''})) c"
proof -
  have s1: "StartTimerSchema_parse (Some obj) = Inr (d, p)"
    using assms(1,2) by (rule parse_start_ok)
  have s2: "StartTimerSchema_parse (Some (obj |` {''description'', ''project_name''})) = Inr (d, p)"
    using assms(1,2) by (intro parse_start_ok) simp_all
  have d1: "DeleteEntrySchema_parse (Some obj') = Inr n"
    using assms(3) by (rule parse_delete_ok)
  have d2: "DeleteEntrySchema_parse (Some (obj' |` {''entry_id''})) = Inr n"
    using assms(3) by (intro parse_delete_ok) simp
  have t1: "toggl_start rt rm now (Some obj) = start_after_validation rt rm now d p"
    by (simp add: toggl_start_def s1 start_after_validation_def start_text_def)
  have t2: "toggl_start rt rm now (Some (obj |` {''description'', ''project_name''})) =
        start_after_validation rt rm now d p"
    by (simp add: toggl_start_def s2 start_after_validation_def start_text_def)
  have t3: "toggl_delete rt rm (Some obj') = deleteEntry rt rm n"
    by (simp add: toggl_delete_def d1)
  have t4: "toggl_delete rt rm (Some (obj' |` {''entry_id''})) = deleteEntry rt rm n"
    by (simp add: toggl_delete_def d2)
  have n1: "\<not> is_invalid_params (fst (call_tool rt rm now now_ms ''toggl_start'' (Some obj) c))"
    using translated_no_invalid_params
      [where h = "start_after_validation rt rm now d p" and c = c and rt = rt,
       OF start_after_validation_no_ZodError]
    by (simp add: call_tool_def t1)
  have n2: "\<not> is_invalid_params (fst (call_tool rt rm now now_ms ''toggl_delete'' (Some obj') c))"
    using translated_no_invalid_params
      [where h = "deleteEntry rt rm n" and c = c and rt = rt, OF deleteEntry_no_ZodError]
    by (simp add: call_tool_def t3)
  have e1: "call_tool rt rm now now_ms ''toggl_start'' (Some obj) c =
           call_tool rt rm now now_ms ''toggl_start''
             (Some (obj |` {''description'', ''project_name''})) c"
    by (simp add: call_tool_def t1 t2)
  have e2: "call_tool rt rm now now_ms ''toggl_delete'' (Some obj') c =
           call_tool rt rm now now_ms ''toggl_delete'' (Some (obj' |` {''entry_id''})) c"
    by (simp add: call_tool_def t3 t4)
  show ?thesis using s1 t1 n1 e1 d1 t3 n2 e2 by blast
qed

theorem extra_arguments_ignored_witness:
  "call_tool rt0 rm_start now0 0 ''toggl_start''
     (Some [''description'' \<mapsto> JStr ''write report'', ''priority'' \<mapsto> JNum 3, ''tags'' \<mapsto> JArr []]) c0 =
     (Inr (''Started timer: '' @ dq @ ''write report'' @ dq @ nl @ ''Entry ID: #''),
      \<lparr>workspaceId = Some 7,
       sent = [GetMe, PostTimeEntry 7 ''write report'' None ''2024-01-01T10:00:00.000Z'']\<rparr>) \<and>
   call_tool rt0 rm0 now0 0 ''toggl_delete'' (Some [''entry_id'' \<mapsto> JNum 42, ''force'' \<mapsto> JBool True]) c0 =
     (Inr ''Deleted entry #'', \<lparr>workspaceId = Some 7, sent = [GetMe, DeleteTimeEntry 7 42]\<rparr>)"
proof -
  have s: "start_after_validation rt0 rm_start now0 ''write report'' None c0 =
     (Inr (''Started timer: '' @ dq @ ''write report'' @ dq @ nl @ ''Entry ID: #''),
      \<lparr>workspaceId = Some 7,
       sent = [GetMe, PostTimeEntry 7 ''write report'' None ''2024-01-01T10:00:00.000Z'']\<rparr>)"
    by (simp add: start_after_validation_def start_text_def startTimer_def getWorkspaceId_def
        await_def api_def return_def result_def rm_start_def rm0_def rt0_def c0_def now0_def
        e_running_def)
  have d: "deleteEntry rt0 rm0 42 c0 =
     (Inr ''Deleted entry #'', \<lparr>workspaceId = Some 7, sent = [GetMe, DeleteTimeEntry 7 42]\<rparr>)"
    by (simp add: deleteEntry_def getWorkspaceId_def await_def api_def return_def rm0_def rt0_def
        c0_def)
  note T = extra_arguments_ignored
      [of "[''description'' \<mapsto> JStr ''write report'', ''priority'' \<mapsto> JNum 3, ''tags'' \<mapsto> JArr []]"
          "''write report''" None "[''entry_id'' \<mapsto> JNum 42, ''force'' \<mapsto> JBool True]" 42]
  have 1: "toggl_start rt0 rm_start now0
      (Some [''description'' \<mapsto> JStr ''write report'', ''priority'' \<mapsto> JNum 3, ''tags'' \<mapsto> JArr []]) =
      start_after_validation rt0 rm_start now0 ''write report'' None"
    using T [of rt0 rm_start now0 0 c0] by simp
  have 2: "toggl_delete rt0 rm0 (Some [''entry_id'' \<mapsto> JNum 42, ''force'' \<mapsto> JBool True]) =
      deleteEntry rt0 rm0 42"
    using T [of rt0 rm0 now0 0 c0] by simp
  show ?thesis by (simp add: call_tool_def 1 2 s d)
qed

section \<open>The aggregation\<close>

subsection \<open>Records of seconds with plain keys\<close>

lemma map_of_add_plain:
  "map_of (add_plain obj k v) = (map_of obj)(k \<mapsto> prop_or_zero obj k + v)"
  by (induction obj) (auto simp: prop_or_zero_def fun_eq_iff)

lemma prop_or_zero_add_plain:
  "prop_or_zero (add_plain obj k v) k' = prop_or_zero obj k' + (if k' = k then v else 0)"
  by (simp add: prop_or_zero_def map_of_add_plain)

lemma map_fst_add_plain:
  "map fst (add_plain obj k v) = (if k \<in> fst ` set obj then map fst obj else map fst obj @ [k])"
proof (induction obj)
  case Nil
  then show ?case by simp
next
  case (Cons kv obj)
  obtain k' v' where kv: "kv = (k', v')" by (cases kv)
  show ?case
  proof (cases "k' = k")
    case True
    then show ?thesis by (simp add: kv)
  next
    case False
    then show ?thesis using Cons.IH by (simp add: kv)
  qed
qed


lemma distinct_add_plain: "distinct (map fst obj) \<Longrightarrow> distinct (map fst (add_plain obj k v))"
  by (simp only: map_fst_add_plain) auto

lemma sum_add_plain: "sum_list (map snd (add_plain obj k v)) = sum_list (map snd obj) + v"
  by (induction obj) auto

lemma add_plain_set_prop: "add_plain obj k v = set_prop obj k (prop_or_zero obj k + v)"
  by (induction obj) (auto simp: prop_or_zero_def)

lemma nonneg_add_plain:
  assumes "\<forall>(k, n) \<in> set obj. 0 \<le> n" and "0 \<le> v"
  shows "\<forall>(k, n) \<in> set (add_plain obj k' v). 0 \<le> n"
  using assms by (induction obj) (auto split: if_splits)

lemma prop_or_zero_bounds:
  assumes "\<forall>(k, n) \<in> set obj. 0 \<le> n"
  shows "0 \<le> prop_or_zero obj k \<and> prop_or_zero obj k \<le> sum_list (map snd obj)"
  using assms
proof (induction obj)
  case Nil
  then show ?case by (simp add: prop_or_zero_def)
next
  case (Cons kv obj)
  obtain k' v' where kv: "kv = (k', v')" by (cases kv)
  have v': "0 \<le> v'" using Cons.prems by (simp add: kv)
  have rest: "0 \<le> sum_list (map snd obj)"
    using Cons.prems by (intro sum_list_nonneg) auto
  have IH: "0 \<le> prop_or_zero obj k \<and> prop_or_zero obj k \<le> sum_list (map snd obj)"
    using Cons by simp
  show ?case
  proof (cases "k' = k")
    case True
    then show ?thesis using v' rest by (simp add: kv prop_or_zero_def)
  next
    case False
    have "prop_or_zero (kv # obj) k = prop_or_zero obj k"
      using False by (simp add: kv prop_or_zero_def)
    then show ?thesis using IH v' by (simp add: kv)
  qed
qed

subsection \<open>The records of the program on plain keys\<close>

lemma map_of_seconds_obj: "map_of (seconds_obj obj) k = map_option Seconds (map_of obj k)"
  by (induction obj) (auto simp: seconds_obj_def)

lemma set_prop_seconds_obj:
  "set_prop (seconds_obj obj) k (Seconds n) = seconds_obj (set_prop obj k n)"
  by (induction obj) (auto simp: seconds_obj_def)

lemma add_to_plain:
  assumes p: "is_plain rt k" and b: "\<bar>prop_or_zero obj k + v\<bar> < 2 ^ 53"
  shows "add_to rt (seconds_obj obj) k v = seconds_obj (add_plain obj k v)"
proof (cases "map_of obj k")
  case None
  then have z: "prop_or_zero obj k = 0" by (simp add: prop_or_zero_def)
  have "js_plus 0 v = 0 + v" using b by (intro js_plus_exact) (simp add: z)
  then show ?thesis
    using p None
    by (simp add: add_to_def Let_def map_of_seconds_obj is_plain_def set_prop_seconds_obj
        add_plain_set_prop z)
next
  case (Some n)
  then have z: "prop_or_zero obj k = n" by (simp add: prop_or_zero_def)
  have "js_plus n v = n + v" using b by (intro js_plus_exact) (simp add: z)
  then show ?thesis
    using Some
    by (simp add: add_to_def Let_def map_of_seconds_obj set_prop_seconds_obj
        add_plain_set_prop z)
qed

subsection \<open>The loop\<close>

lemma seconds_of_nonneg: "0 \<le> seconds_of e"
  by (simp add: seconds_of_def)

lemma sum_seconds_nonneg: "0 \<le> sum_list (map seconds_of es)"
  by (auto intro!: sum_list_nonneg simp: seconds_of_nonneg)

lemma tally_plain:
  assumes "tally rt es \<lparr>totalSeconds = T, dailyTotals = seconds_obj d,
                        projectTotals = seconds_obj p\<rparr> = Inr t'"
    and "plain_keys rt es"
    and "0 \<le> T" and "\<forall>(k, n) \<in> set d. 0 \<le> n" and "\<forall>(k, n) \<in> set p. 0 \<le> n"
    and "T + sum_list (map seconds_of es) < 2 ^ 53"
    and "sum_list (map snd d) + sum_list (map seconds_of es) < 2 ^ 53"
    and "sum_list (map snd p) + sum_list (map seconds_of es) < 2 ^ 53"
  shows "t' = \<lparr>totalSeconds = T + sum_list (map seconds_of es),
               dailyTotals = seconds_obj (tally_obj day_of d es),
               projectTotals = seconds_obj (tally_obj project_of p es)\<rparr> \<and>
         Undefined \<notin> start ` set es \<and> Null \<notin> start ` set es"
  using assms
proof (induction es arbitrary: T d p)
  case Nil
  then show ?case by (simp add: tally_obj_def)
next
  case (Cons e es)
  from Cons.prems(1) obtain s where s: "start e = Val s"
    by (cases "start e") (simp_all add: Let_def)
  define v where "v = seconds_of e"
  define S where "S = sum_list (map seconds_of es)"
  have v0: "0 \<le> v" by (simp add: v_def seconds_of_nonneg)
  have S0: "0 \<le> S" by (simp add: S_def sum_seconds_nonneg)
  have sum: "sum_list (map seconds_of (e # es)) = v + S" by (simp add: v_def S_def)
  have pk: "is_plain rt (day_of e)" "is_plain rt (project_of e)" "plain_keys rt es"
    using Cons.prems(2) by (simp_all add: plain_keys_def)
  have bT: "T + (v + S) < 2 ^ 53" using Cons.prems(6) by (simp only: sum)
  have bd: "sum_list (map snd d) + (v + S) < 2 ^ 53" using Cons.prems(7) by (simp only: sum)
  have bp: "sum_list (map snd p) + (v + S) < 2 ^ 53" using Cons.prems(8) by (simp only: sum)
  have "\<bar>T + v\<bar> < 2 ^ 53" using Cons.prems(3) v0 S0 bT by simp
  then have eT: "js_plus T v = T + v" by (rule js_plus_exact)
  note pd = prop_or_zero_bounds [OF Cons.prems(4), of "day_of e"]
  note pp = prop_or_zero_bounds [OF Cons.prems(5), of "project_of e"]
  have "\<bar>prop_or_zero d (day_of e) + v\<bar> < 2 ^ 53" using pd v0 S0 bd by simp
  then have ed: "add_to rt (seconds_obj d) (day_of e) v = seconds_obj (add_plain d (day_of e) v)"
    using pk(1) by (intro add_to_plain)
  have "\<bar>prop_or_zero p (project_of e) + v\<bar> < 2 ^ 53" using pp v0 S0 bp by simp
  then have ep: "add_to rt (seconds_obj p) (project_of e) v =
      seconds_obj (add_plain p (project_of e) v)"
    using pk(2) by (intro add_to_plain)
  have step: "tally rt es \<lparr>totalSeconds = T + v,
      dailyTotals = seconds_obj (add_plain d (day_of e) v),
      projectTotals = seconds_obj (add_plain p (project_of e) v)\<rparr> = Inr t'"
    using Cons.prems(1) s eT ed ep
    by (simp add: Let_def v_def seconds_of_def day_of_def project_of_def)
  have IH: "t' = \<lparr>totalSeconds = T + v + sum_list (map seconds_of es),
               dailyTotals = seconds_obj (tally_obj day_of (add_plain d (day_of e) v) es),
               projectTotals = seconds_obj (tally_obj project_of (add_plain p (project_of e) v) es)\<rparr> \<and>
         Undefined \<notin> start ` set es \<and> Null \<notin> start ` set es"
  proof (rule Cons.IH [OF step pk(3)])
    show "0 \<le> T + v" using Cons.prems(3) v0 by simp
    show "\<forall>(k, n) \<in> set (add_plain d (day_of e) v). 0 \<le> n"
      using Cons.prems(4) v0 by (rule nonneg_add_plain)
    show "\<forall>(k, n) \<in> set (add_plain p (project_of e) v). 0 \<le> n"
      using Cons.prems(5) v0 by (rule nonneg_add_plain)
    show "T + v + sum_list (map seconds_of es) < 2 ^ 53" using bT by (simp add: S_def)
    show "sum_list (map snd (add_plain d (day_of e) v)) + sum_list (map seconds_of es) < 2 ^ 53"
      using bd by (simp add: sum_add_plain S_def)
    show "sum_list (map snd (add_plain p (project_of e) v)) + sum_list (map seconds_of es) < 2 ^ 53"
      using bp by (simp add: sum_add_plain S_def)
  qed
  then show ?case
    using s by (simp add: tally_obj_def v_def image_iff)
qed

lemma tally_obj_lookup:
  "prop_or_zero (tally_obj key obj es) k = prop_or_zero obj k + bucket_seconds key es k"
  unfolding tally_obj_def
  by (induction es arbitrary: obj) (simp_all add: bucket_seconds_def prop_or_zero_add_plain)


lemma tally_obj_distinct:
  "distinct (map fst obj) \<Longrightarrow> distinct (map fst (tally_obj key obj es))"
  unfolding tally_obj_def
  by (induction es arbitrary: obj) (simp_all add: distinct_add_plain)

lemma tally_obj_sum:
  "sum_list (map snd (tally_obj key obj es)) = sum_list (map snd obj) + sum_list (map seconds_of es)"
  unfolding tally_obj_def
  by (induction es arbitrary: obj) (simp_all add: sum_add_plain)

lemma bucket_seconds_nonneg: "0 \<le> bucket_seconds key es k"
  by (auto simp: bucket_seconds_def seconds_of_nonneg intro!: sum_list_nonneg)

lemma bucket_seconds_le: "bucket_seconds key es k \<le> sum_list (map seconds_of es)"
  unfolding bucket_seconds_def
  by (induction es) (auto simp: seconds_of_nonneg intro: add_increasing)

lemma distinct_lookup:
  "distinct (map fst obj) \<Longrightarrow> (k, v) \<in> set obj \<Longrightarrow> prop_or_zero obj k = v"
  by (simp add: prop_or_zero_def)

lemma tally_obj_value:
  assumes "(k, v) \<in> set (tally_obj key [] es)"
  shows "v = bucket_seconds key es k"
proof -
  have d: "distinct (map fst (tally_obj key [] es))" by (simp add: tally_obj_distinct)
  have "prop_or_zero (tally_obj key [] es) k = v" using d assms by (rule distinct_lookup)
  moreover have "prop_or_zero (tally_obj key [] es) k = bucket_seconds key es k"
    by (simp only: tally_obj_lookup) (simp add: prop_or_zero_def)
  ultimately show ?thesis by simp
qed

subsection \<open>Objects\<close>

lemma mset_Object_entries: "mset (Object_entries obj) = mset obj"
proof -
  have "(\<lambda>(k, v). \<not> is_array_index k) = (\<lambda>kv :: string \<times> 'a. \<not> (case kv of (k, v) \<Rightarrow> is_array_index k))"
    by (simp add: fun_eq_iff)
  then show ?thesis by (simp add: Object_entries_def)
qed

lemma set_prop_new: "k \<notin> fst ` set obj \<Longrightarrow> set_prop obj k v = obj @ [(k, v)]"
  by (induction obj) auto

lemma foldl_set_prop:
  "distinct (map fst (acc @ kvs)) \<Longrightarrow>
     foldl (\<lambda>obj (k, v). set_prop obj k v) acc kvs = acc @ kvs"
proof (induction kvs arbitrary: acc)
  case Nil
  then show ?case by simp
next
  case (Cons kv kvs)
  obtain k v where kv: "kv = (k, v)" by (cases kv)
  have new: "k \<notin> fst ` set acc" using Cons.prems by (auto simp: kv)
  have "distinct (map fst ((acc @ [(k, v)]) @ kvs))" using Cons.prems by (simp add: kv)
  from Cons.IH [OF this] show ?case by (simp add: kv set_prop_new [OF new])
qed

lemma Object_fromEntries_distinct:
  "distinct (map fst kvs) \<Longrightarrow> Object_fromEntries kvs = kvs"
  using foldl_set_prop [of "[]" kvs] by (simp add: Object_fromEntries_def)

lemma mset_insert_by: "mset (insert_by le x xs) = add_mset x (mset xs)"
  by (induction xs) simp_all

lemma mset_sort_by: "mset (sort_by le xs) = mset xs"
  unfolding sort_by_def by (induction xs) (simp_all add: mset_insert_by)

lemma mset_hours_entries:
  "mset (hours_entries obj) = image_mset (\<lambda>(k, n). (k, Hours (toHours n))) (mset obj)"
proof -
  have "mset (hours_entries obj) =
        image_mset (\<lambda>(k, b). (k, bucket_hours b)) (mset (seconds_obj obj))"
    by (simp add: hours_entries_def mset_Object_entries)
  also have "\<dots> = image_mset (\<lambda>(k, n). (k, Hours (toHours n))) (mset obj)"
    by (simp add: seconds_obj_def multiset.map_comp comp_def case_prod_unfold)
  finally show ?thesis .
qed

lemma breakdown_mset:
  assumes "distinct (map fst obj)" and "mset ys = mset (hours_entries obj)"
  shows "mset (Object_fromEntries ys) = image_mset (\<lambda>(k, n). (k, Hours (toHours n))) (mset obj)"
proof -
  have "image_mset fst (mset ys) = image_mset fst (mset obj)"
    by (simp add: assms(2) mset_hours_entries multiset.map_comp comp_def case_prod_unfold)
  then have "mset (map fst ys) = mset (map fst obj)" by simp
  then have "distinct (map fst ys)"
    using assms(1) by (metis mset_eq_imp_distinct_iff)
  then show ?thesis by (simp add: Object_fromEntries_distinct assms(2) mset_hours_entries)
qed

lemma breakdown_set:
  assumes "mset B = image_mset (\<lambda>(k, n). (k, Hours (toHours n))) (mset obj)"
  shows "set B = (\<lambda>(k, n). (k, Hours (toHours n))) ` set obj"
  using assms by (metis set_mset_mset set_image_mset)

lemma breakdown_values:
  assumes "mset B = image_mset (\<lambda>(k, n). (k, Hours (toHours n))) (mset (tally_obj key [] es))"
    and "(k, h) \<in> set B"
  shows "h = Hours (toHours (bucket_seconds key es k))"
proof -
  from assms(2) obtain n where 1: "(k, n) \<in> set (tally_obj key [] es)"
    and 2: "h = Hours (toHours n)"
    unfolding breakdown_set [OF assms(1)] by auto
  show ?thesis using tally_obj_value [OF 1] 2 by simp
qed


lemma summarize_Inr:
  assumes "summarize rt monday sunday (Some es) = Inr s"
    and "plain_keys rt es" and "sum_list (map seconds_of es) < 2 ^ 53"
  shows "total_hours s = toHours (sum_list (map seconds_of es)) \<and>
         mset (daily_breakdown s) =
           image_mset (\<lambda>(k, n). (k, Hours (toHours n))) (mset (tally_obj day_of [] es)) \<and>
         mset (project_breakdown s) =
           image_mset (\<lambda>(k, n). (k, Hours (toHours n))) (mset (tally_obj project_of [] es)) \<and>
         Undefined \<notin> start ` set es \<and> Null \<notin> start ` set es"
proof -
  obtain t where t: "tally rt es \<lparr>totalSeconds = 0, dailyTotals = seconds_obj [],
                                  projectTotals = seconds_obj []\<rparr> = Inr t"
    using assms(1) by (auto simp: summarize_def seconds_obj_def split: sum.splits)
  have T: "t = \<lparr>totalSeconds = 0 + sum_list (map seconds_of es),
               dailyTotals = seconds_obj (tally_obj day_of [] es),
               projectTotals = seconds_obj (tally_obj project_of [] es)\<rparr> \<and>
         Undefined \<notin> start ` set es \<and> Null \<notin> start ` set es"
    using t assms(2) by (rule tally_plain) (use assms(3) in simp_all)
  have t0: "tally rt es \<lparr>totalSeconds = 0, dailyTotals = [], projectTotals = []\<rparr> = Inr t"
    using t by (simp add: seconds_obj_def)
  have s: "total_hours s = toHours (sum_list (map seconds_of es))"
    "daily_breakdown s =
       Object_fromEntries (sort_key (\<lambda>(date, hours). date @ '','' @ show_hours rt hours)
         (hours_entries (tally_obj day_of [] es)))"
    "project_breakdown s =
       Object_fromEntries (sort_by not_after (hours_entries (tally_obj project_of [] es)))"
    using assms(1) T
    by (auto simp: summarize_def t0 hours_entries_def split: sum.splits)
  have d: "distinct (map fst (tally_obj key [] es))" for key
    by (simp add: tally_obj_distinct)
  show ?thesis
    using T by (simp add: s breakdown_mset [OF d] mset_sort_by)
qed

subsection \<open>Rounding\<close>

lemma toHours_round_hundredths: "toHours s = fl (of_int (round_hundredths s) / 100)"
  by (simp add: toHours_def round_hundredths_def fdiv_def)

lemma product_error:
  assumes s: "0 \<le> s" "s \<le> 2 ^ 51"
  shows "\<bar>fmul (fdiv (of_int s) 3600) 100 - of_int s / 36\<bar> < 1 / 36"
proof -
  define q :: rat where "q = of_int s / 3600"
  define a where "a = fl q"
  define x where "x = fl (a * 100)"
  define u :: rat where "u = 1 / 2 ^ 53"
  have q0: "0 \<le> q" using s by (simp add: q_def)
  have sq: "(of_int s :: rat) \<le> 2 ^ 51"
  proof -
    have "(of_int s :: rat) \<le> of_int (2 ^ 51)" using s by (simp only: of_int_le_iff)
    then show ?thesis by simp
  qed
  have qb: "q \<le> 2 ^ 51 / 3600" using sq by (simp add: q_def)
  have a0: "0 \<le> a" unfolding a_def using q0 by (rule fl_nonneg)
  have ea: "\<bar>a - q\<bar> \<le> q * u" using fl_error [of q] q0 by (simp add: a_def u_def)
  have ex: "\<bar>x - a * 100\<bar> \<le> a * 100 * u"
    using fl_error [of "a * 100"] a0 by (simp add: x_def u_def)
  have u: "u = 1 / 9007199254740992" by (simp add: u_def)
  have au: "a \<le> q + q * u" using ea by (simp add: abs_le_iff)
  have "\<bar>(x - a * 100) + (a * 100 - q * 100)\<bar> \<le> \<bar>x - a * 100\<bar> + \<bar>a * 100 - q * 100\<bar>"
    by (rule abs_triangle_ineq)
  moreover have "\<bar>a * 100 - q * 100\<bar> = \<bar>a - q\<bar> * 100"
  proof -
    have "a * 100 - q * 100 = (a - q) * 100" by (simp add: algebra_simps)
    then show ?thesis by (simp only: abs_mult)
  qed
  ultimately have "\<bar>x - q * 100\<bar> \<le> \<bar>x - a * 100\<bar> + \<bar>a - q\<bar> * 100" by simp
  also have "\<dots> \<le> a * 100 * u + q * u * 100"
    using ex ea by (intro add_mono) simp_all
  also have "\<dots> \<le> (q + q * u) * 100 * u + q * u * 100"
    using au by (simp add: u)
  also have "\<dots> = q * (200 * u + 100 * u * u)" by (simp add: algebra_simps)
  also have "\<dots> \<le> (2 ^ 51 / 3600) * (200 * u + 100 * u * u)"
    using qb by (intro mult_right_mono) (simp_all add: u)
  also have "\<dots> < 1 / 36" by (simp add: u)
  finally have "\<bar>x - q * 100\<bar> < 1 / 36" .
  moreover have "q * 100 = of_int s / 36" by (simp add: q_def)
  ultimately show ?thesis by (simp add: x_def a_def q_def fmul_def fdiv_def)
qed

lemma round_hundredths_bounds:
  assumes s: "0 \<le> s" "s \<le> 2 ^ 51"
  shows "36 * round_hundredths s - 18 \<le> s \<and> s \<le> 36 * round_hundredths s + 18"
proof -
  define x where "x = fmul (fdiv (of_int s) 3600) 100"
  define m where "m = round_hundredths s"
  have m: "m = \<lfloor>x + 1 / 2\<rfloor>" by (simp add: m_def round_hundredths_def Math_round_def x_def)
  have e: "\<bar>x - of_int s / 36\<bar> < 1 / 36" unfolding x_def using s by (rule product_error)
  have "of_int m \<le> x + 1 / 2" "x + 1 / 2 < of_int m + 1" unfolding m by linarith+
  then have "of_int m - 1 / 2 - 1 / 36 < (of_int s / 36 :: rat)"
    "(of_int s / 36 :: rat) < of_int m + 1 / 2 + 1 / 36"
    using e by linarith+
  then have "(of_int (36 * m - 19) :: rat) < of_int s" "(of_int s :: rat) < of_int (36 * m + 19)"
    by (simp_all add: field_simps)
  then have "36 * m - 19 < s" "s < 36 * m + 19" by (simp_all only: of_int_less_iff)
  then show ?thesis by (simp add: m_def)
qed

lemma round_hundredths_error:
  assumes s: "0 \<le> s" "s \<le> 2 ^ 51"
  shows "\<bar>of_int (round_hundredths s) - of_int s / 36 :: rat\<bar> \<le> 1 / 2"
proof -
  define m where "m = round_hundredths s"
  have "36 * m - 18 \<le> s" "s \<le> 36 * m + 18"
    using round_hundredths_bounds [OF s] by (simp_all add: m_def)
  then have "(of_int (36 * m - 18) :: rat) \<le> of_int s" "(of_int s :: rat) \<le> of_int (36 * m + 18)"
    by (simp_all only: of_int_le_iff)
  then have "\<bar>of_int m - of_int s / 36 :: rat\<bar> \<le> 1 / 2"
    by (simp add: abs_le_iff field_simps)
  then show ?thesis by (simp add: m_def)
qed

lemma round_hundredths_range:
  assumes s: "0 \<le> s" "s \<le> 2 ^ 51"
  shows "0 \<le> round_hundredths s \<and> round_hundredths s < 2 ^ 52"
proof -
  have sq: "(of_int s :: rat) \<le> 2 ^ 51" "(0::rat) \<le> of_int s"
  proof -
    have "(of_int s :: rat) \<le> of_int (2 ^ 51)" using s by (simp only: of_int_le_iff)
    then show "(of_int s :: rat) \<le> 2 ^ 51" by simp
    show "(0::rat) \<le> of_int s" using s by simp
  qed
  have e: "\<bar>of_int (round_hundredths s) - of_int s / 36 :: rat\<bar> \<le> 1 / 2" using s by (rule round_hundredths_error)
  have "(of_int (round_hundredths s) :: rat) \<le> of_int s / 36 + 1 / 2" "of_int s / 36 - 1 / 2 \<le> (of_int (round_hundredths s) :: rat)"
    using e by linarith+
  then have "(of_int (round_hundredths s) :: rat) < of_int (2 ^ 52)" "(of_int (- 1) :: rat) < of_int (round_hundredths s)"
    using sq by simp_all
  then have "round_hundredths s < 2 ^ 52" "- 1 < round_hundredths s" by (simp_all only: of_int_less_iff)
  then show ?thesis by simp
qed

lemma hundredths_toHours:
  assumes s: "0 \<le> s" "s \<le> 2 ^ 51"
  shows "hundredths (toHours s) = round_hundredths s"
proof -
  define k where "k = round_hundredths s"
  have k: "0 \<le> k" "k < 2 ^ 52" using round_hundredths_range [OF s] by (simp_all add: k_def)
  define y :: rat where "y = of_int k / 100"
  have y0: "0 \<le> y" using k by (simp add: y_def)
  have kq: "(of_int k :: rat) < 2 ^ 52"
  proof -
    have "(of_int k :: rat) < of_int (2 ^ 52)" using k by (simp only: of_int_less_iff)
    then show ?thesis by simp
  qed
  have "\<bar>fl y - y\<bar> \<le> y / 2 ^ 53" using fl_error [of y] y0 by simp
  then have "\<bar>fl y * 100 - of_int k\<bar> \<le> of_int k / 2 ^ 53"
    by (simp add: y_def abs_le_iff field_simps)
  moreover have "of_int k / 2 ^ 53 < (1 / 2 :: rat)" using kq by simp
  ultimately have "\<bar>fl y * 100 - of_int k\<bar> < 1 / 2" by linarith
  then have "fl y * 100 - 1 / 2 < of_int k" "of_int k \<le> fl y * 100 + 1 / 2" by linarith+
  then have "round (fl y * 100) = k" by (rule round_unique)
  then show ?thesis by (simp add: hundredths_def toHours_round_hundredths k_def y_def)
qed

lemma toHours_is_hundredths:
  assumes "0 \<le> s" and "s \<le> 2 ^ 51"
  shows "toHours s = fl (of_int (hundredths (toHours s)) / 100)"
  using hundredths_toHours [OF assms] toHours_round_hundredths [of s] by simp





subsection \<open>Sample weeks\<close>

lemma iso_monday0: "toISOString rt0 monday0 = Inr ''2024-01-01T00:00:00.000Z''"
  by (simp add: rt0_def monday0_def)

lemma iso_sunday0: "toISOString rt0 sunday0 = Inr ''2024-01-07T23:59:59.999Z''"
  by (simp add: rt0_def sunday0_def)

lemma show_num_rt0: "show_num rt0 q = ''#''"
  by (simp add: rt0_def)

lemma not_index_dates:
  "\<not> is_array_index ''2024-01-01''" "\<not> is_array_index ''2024-01-02''"
  "\<not> is_array_index ''2024-01-03''" "\<not> is_array_index ''2024-01-04''"
  "\<not> is_array_index ''Alpha''" "\<not> is_array_index ''Beta''"
  "\<not> is_array_index ''Gamma''" "\<not> is_array_index ''Delta''"
  "\<not> is_array_index ''constructor''"
  by (simp_all add: is_array_index_def is_digit_def)

lemma plain_rt0:
  "is_plain rt0 ''2024-01-01''" "is_plain rt0 ''2024-01-02''"
  "is_plain rt0 ''2024-01-03''" "is_plain rt0 ''2024-01-04''"
  "is_plain rt0 ''Alpha''" "is_plain rt0 ''Beta''"
  "is_plain rt0 ''Gamma''" "is_plain rt0 ''Delta''"
  by (simp_all add: is_plain_def rt0_def)

lemma plain_keys_entries4: "plain_keys rt0 entries4"
  by (simp add: plain_keys_def entries4_def day_of_def project_of_def split_T_0_def plain_rt0)

lemma add_to_new:
  assumes "is_plain rt k" and "map_of obj k = None" and "\<bar>v\<bar> < 2 ^ 53"
  shows "add_to rt obj k v = set_prop obj k (Seconds v)"
proof -
  have "js_plus 0 v = 0 + v" using assms(3) by (intro js_plus_exact) simp
  then show ?thesis using assms(1,2) by (simp add: add_to_def is_plain_def)
qed

lemma tally_entries4:
  "tally rt0 entries4 \<lparr>totalSeconds = 0, dailyTotals = [], projectTotals = []\<rparr> =
     Inr \<lparr>totalSeconds = 80,
          dailyTotals = [(''2024-01-01'', Seconds 20), (''2024-01-02'', Seconds 20),
                         (''2024-01-03'', Seconds 20), (''2024-01-04'', Seconds 20)],
          projectTotals = [(''Alpha'', Seconds 20), (''Beta'', Seconds 20),
                           (''Gamma'', Seconds 20), (''Delta'', Seconds 20)]\<rparr>"
  by (simp add: entries4_def split_T_0_def add_to_new plain_rt0 js_plus_exact)

lemma entries_daily4:
  "Object_entries [(''2024-01-01'', Seconds 20), (''2024-01-02'', Seconds 20),
                   (''2024-01-03'', Seconds 20), (''2024-01-04'', Seconds 20)]
     = [(''2024-01-01'', Seconds 20), (''2024-01-02'', Seconds 20),
        (''2024-01-03'', Seconds 20), (''2024-01-04'', Seconds 20)]"
  by (simp add: Object_entries_def not_index_dates)

lemma entries_project4:
  "Object_entries [(''Alpha'', Seconds 20), (''Beta'', Seconds 20),
                   (''Gamma'', Seconds 20), (''Delta'', Seconds 20)]
     = [(''Alpha'', Seconds 20), (''Beta'', Seconds 20),
        (''Gamma'', Seconds 20), (''Delta'', Seconds 20)]"
  by (simp add: Object_entries_def not_index_dates)

lemma length_entries4: "length entries4 = 4"
  by (simp add: entries4_def)

lemma summarize_entries4: "summarize rt0 monday0 sunday0 (Some entries4) = Inr summary4"
  by (simp add: summarize_def tally_entries4 entries_daily4 entries_project4 summary4_def
      iso_monday0 iso_sunday0 show_num_rt0 split_T_0_def Object_fromEntries_def length_entries4
      sort_by_def not_after_def)



subsection \<open>The hours of the summary\<close>




subsection \<open>Sums of rounded values\<close>

lemma toHours_20: "toHours 20 = 5764607523034235 / 576460752303423488"
  by code_simp

lemma toHours_80: "toHours 80 = 5764607523034235 / 288230376151711744"
  by code_simp

text \<open>
  C3, an instance.  Four entries of twenty seconds on four days and four projects: every
  bucket shows 0.01 hours and the total 0.02 hours, so each breakdown sums to 0.04 and
  differs from the total by more than 0.01.
\<close>

theorem breakdown_sum_counterexample:
  "summarize rt0 monday0 sunday0 (Some entries4) = Inr summary4 \<and>
   \<not> \<bar>(\<Sum>(k, h) \<leftarrow> daily_breakdown summary4. hours_value h) - total_hours summary4\<bar> \<le> 1 / 100 \<and>
   \<not> \<bar>(\<Sum>(k, h) \<leftarrow> project_breakdown summary4. hours_value h) - total_hours summary4\<bar> \<le> 1 / 100"
  by (simp add: summarize_entries4) (simp add: summary4_def toHours_20 toHours_80)

lemma sum_list_mset_cong:
  fixes g :: "'a \<Rightarrow> int"
  assumes "mset xs = mset ys"
  shows "sum_list (map g xs) = sum_list (map g ys)"
proof -
  have "sum_list (map g xs) = sum_mset (image_mset g (mset xs))"
    by (metis mset_map sum_mset_sum_list)
  also have "\<dots> = sum_mset (image_mset g (mset ys))" using assms by simp
  also have "\<dots> = sum_list (map g ys)"
    by (metis mset_map sum_mset_sum_list)
  finally show ?thesis .
qed

lemma breakdown_hundredths:
  assumes B: "mset B = image_mset (\<lambda>(k, n). (k, Hours (toHours n))) (mset obj)"
    and r: "\<forall>(k, v) \<in> set obj. 0 \<le> v \<and> v \<le> 2 ^ 51"
  shows "(\<Sum>(k, h) \<leftarrow> B. hundredths (hours_value h)) = (\<Sum>(k, v) \<leftarrow> obj. round_hundredths v) \<and>
         length B = length obj"
proof -
  let ?T = "map (\<lambda>(k, n). (k, Hours (toHours n))) obj"
  have m: "mset B = mset ?T" using B by simp
  have "(\<Sum>(k, h) \<leftarrow> B. hundredths (hours_value h)) = (\<Sum>(k, h) \<leftarrow> ?T. hundredths (hours_value h))"
    using m by (rule sum_list_mset_cong)
  also have "\<dots> = (\<Sum>(k, v) \<leftarrow> obj. hundredths (toHours v))"
    by (simp add: comp_def case_prod_unfold)
  also have "\<dots> = (\<Sum>(k, v) \<leftarrow> obj. round_hundredths v)"
    using r by (intro arg_cong [where f = sum_list] map_cong) (auto simp: hundredths_toHours)
  finally have 1: "(\<Sum>(k, h) \<leftarrow> B. hundredths (hours_value h)) = (\<Sum>(k, v) \<leftarrow> obj. round_hundredths v)" .
  have "size (mset B) = size (mset ?T)" using m by simp
  then have 2: "length B = length obj" by simp
  show ?thesis using 1 2 by simp
qed

lemma abs_sum_list_bound:
  fixes f :: "'a \<Rightarrow> rat"
  assumes "\<forall>x \<in> set xs. \<bar>f x\<bar> \<le> c"
  shows "\<bar>sum_list (map f xs)\<bar> \<le> of_nat (length xs) * c"
  using assms
proof (induction xs)
  case Nil
  then show ?case by simp
next
  case (Cons x xs)
  have "\<bar>f x + sum_list (map f xs)\<bar> \<le> \<bar>f x\<bar> + \<bar>sum_list (map f xs)\<bar>"
    by (rule abs_triangle_ineq)
  also have "\<dots> \<le> c + of_nat (length xs) * c"
    using Cons by (intro add_mono) simp_all
  finally show ?case by (simp add: algebra_simps)
qed

lemma sum_round_hundredths_near:
  fixes obj :: "('k \<times> int) list"
  assumes r: "\<forall>(k, v) \<in> set obj. 0 \<le> v \<and> v \<le> 2 ^ 51"
    and S: "sum_list (map snd obj) = S" "0 \<le> S" "S \<le> 2 ^ 51"
  shows "2 * \<bar>(\<Sum>(k, v) \<leftarrow> obj. round_hundredths v) - round_hundredths S\<bar> \<le> int (length obj) + 1"
proof -
  let ?e = "\<lambda>kv :: 'k \<times> int. (of_int (round_hundredths (snd kv)) - of_int (snd kv) / 36 :: rat)"
  have "\<forall>kv \<in> set obj. \<bar>?e kv\<bar> \<le> 1 / 2"
  proof
    fix kv assume "kv \<in> set obj"
    then have "0 \<le> snd kv" "snd kv \<le> 2 ^ 51" using r by (auto simp: case_prod_unfold)
    then show "\<bar>?e kv\<bar> \<le> 1 / 2" by (rule round_hundredths_error)
  qed
  then have e1: "\<bar>sum_list (map ?e obj)\<bar> \<le> of_nat (length obj) * (1 / 2)"
    by (rule abs_sum_list_bound)
  have e2: "\<bar>of_int (round_hundredths S) - of_int S / 36 :: rat\<bar> \<le> 1 / 2"
    using S(2,3) by (rule round_hundredths_error)
  have "sum_list (map ?e obj) =
      of_int (sum_list (map (\<lambda>kv. round_hundredths (snd kv)) obj)) - of_int (sum_list (map snd obj)) / 36"
    by (induction obj) (simp_all add: diff_divide_distrib add_divide_distrib)
  then have "of_int ((\<Sum>kv \<leftarrow> obj. round_hundredths (snd kv)) - round_hundredths S) =
      sum_list (map ?e obj) - (of_int (round_hundredths S) - of_int S / 36)"
    by (simp add: S(1))
  then have "\<bar>of_int ((\<Sum>kv \<leftarrow> obj. round_hundredths (snd kv)) - round_hundredths S) :: rat\<bar> \<le>
      of_nat (length obj) * (1 / 2) + 1 / 2"
    using e1 e2 by linarith
  then have "(of_int (2 * \<bar>(\<Sum>kv \<leftarrow> obj. round_hundredths (snd kv)) - round_hundredths S\<bar>) :: rat) \<le>
      of_int (int (length obj) + 1)"
    by simp
  then have "2 * \<bar>(\<Sum>kv \<leftarrow> obj. round_hundredths (snd kv)) - round_hundredths S\<bar> \<le> int (length obj) + 1"
    by (simp only: of_int_le_iff)
  then show ?thesis by (simp add: case_prod_unfold)
qed

lemma tally_obj_range:
  assumes "sum_list (map seconds_of es) \<le> 2 ^ 51"
  shows "\<forall>(k, v) \<in> set (tally_obj key [] es). 0 \<le> v \<and> v \<le> 2 ^ 51"
proof (clarify)
  fix k v assume "(k, v) \<in> set (tally_obj key [] es)"
  then have v: "v = bucket_seconds key es k" by (rule tally_obj_value)
  show "0 \<le> v \<and> v \<le> 2 ^ 51"
    using bucket_seconds_nonneg [of key es k] bucket_seconds_le [of key es k] assms
    by (simp add: v)
qed

lemma breakdown_near_total:
  assumes S: "sum_list (map seconds_of es) \<le> 2 ^ 51"
    and B: "mset B = image_mset (\<lambda>(k, n). (k, Hours (toHours n))) (mset (tally_obj key [] es))"
  shows "2 * \<bar>(\<Sum>(k, h) \<leftarrow> B. hundredths (hours_value h)) -
               hundredths (toHours (sum_list (map seconds_of es)))\<bar>
           \<le> int (length B) + 1"
proof -
  define obj where "obj = tally_obj key [] es"
  define T where "T = sum_list (map seconds_of es)"
  have T0: "0 \<le> T" unfolding T_def by (rule sum_seconds_nonneg)
  have T1: "T \<le> 2 ^ 51" using S by (simp add: T_def)
  have r: "\<forall>(k, v) \<in> set obj. 0 \<le> v \<and> v \<le> 2 ^ 51"
    unfolding obj_def using S by (rule tally_obj_range)
  have sum: "sum_list (map snd obj) = T"
    by (simp add: obj_def T_def tally_obj_sum)
  have B': "mset B = image_mset (\<lambda>(k, n). (k, Hours (toHours n))) (mset obj)"
    using B by (simp only: obj_def)
  note H = breakdown_hundredths [OF B' r]
  have "hundredths (toHours T) = round_hundredths T" using T0 T1 by (rule hundredths_toHours)
  then show ?thesis
    using sum_round_hundredths_near [OF r sum T0 T1] H
    by (simp add: T_def [symmetric])
qed

lemma breakdown_is_hundredths:
  assumes S: "sum_list (map seconds_of es) \<le> 2 ^ 51"
    and B: "mset B = image_mset (\<lambda>(k, n). (k, Hours (toHours n))) (mset (tally_obj key [] es))"
    and h: "(k, h) \<in> set B"
  shows "h = Hours (fl (of_int (hundredths (hours_value h)) / 100))"
proof -
  have 1: "h = Hours (toHours (bucket_seconds key es k))" using B h by (rule breakdown_values)
  have "0 \<le> bucket_seconds key es k" "bucket_seconds key es k \<le> 2 ^ 51"
    using bucket_seconds_nonneg [of key es k] bucket_seconds_le [of key es k] S by simp_all
  then have "toHours (bucket_seconds key es k) =
      fl (of_int (hundredths (toHours (bucket_seconds key es k))) / 100)"
    by (rule toHours_is_hundredths)
  then show ?thesis by (simp add: 1)
qed

text \<open>
  C3.  Every value of the summary is the number nearest to a whole number of hundredths
  of an hour, and each is rounded on its own, so the distance between a breakdown's sum
  and the total grows with the number of buckets.  For entries that all have a start,
  whose days and projects are not named like a member of \<open>Object.prototype\<close>, and whose
  durations sum to at most \<open>2 ^ 51\<close> seconds, the per-day values, read in hundredths, sum
  to the total to within half a hundredth for each day bucket and half a hundredth for the
  total, that is to within \<open>0.005 * (n + 1)\<close> hours for \<open>n\<close> day buckets; the same holds
  for the per-project values.
\<close>

theorem breakdown_sums_near_total:
  assumes "summarize rt monday sunday (Some es) = Inr s"
    and "plain_keys rt es" and "sum_list (map seconds_of es) \<le> 2 ^ 51"
  shows "total_hours s = fl (of_int (hundredths (total_hours s)) / 100) \<and>
         (\<forall>(k, h) \<in> set (daily_breakdown s).
            h = Hours (fl (of_int (hundredths (hours_value h)) / 100))) \<and>
         (\<forall>(k, h) \<in> set (project_breakdown s).
            h = Hours (fl (of_int (hundredths (hours_value h)) / 100))) \<and>
         2 * \<bar>(\<Sum>(k, h) \<leftarrow> daily_breakdown s. hundredths (hours_value h)) -
              hundredths (total_hours s)\<bar>
           \<le> int (length (daily_breakdown s)) + 1 \<and>
         2 * \<bar>(\<Sum>(k, h) \<leftarrow> project_breakdown s. hundredths (hours_value h)) -
              hundredths (total_hours s)\<bar>
           \<le> int (length (project_breakdown s)) + 1"
proof -
  have b: "sum_list (map seconds_of es) < 2 ^ 53" using assms(3) by simp
  note S = summarize_Inr [OF assms(1,2) b]
  have D: "mset (daily_breakdown s) =
      image_mset (\<lambda>(k, n). (k, Hours (toHours n))) (mset (tally_obj day_of [] es))"
    using S by simp
  have P: "mset (project_breakdown s) =
      image_mset (\<lambda>(k, n). (k, Hours (toHours n))) (mset (tally_obj project_of [] es))"
    using S by simp
  have T: "total_hours s = toHours (sum_list (map seconds_of es))" using S by simp
  have 1: "total_hours s = fl (of_int (hundredths (total_hours s)) / 100)"
    unfolding T using sum_seconds_nonneg [of es] assms(3) by (rule toHours_is_hundredths)
  have 2: "\<forall>(k, h) \<in> set (daily_breakdown s).
            h = Hours (fl (of_int (hundredths (hours_value h)) / 100))"
    using breakdown_is_hundredths [OF assms(3) D] by blast
  have 3: "\<forall>(k, h) \<in> set (project_breakdown s).
            h = Hours (fl (of_int (hundredths (hours_value h)) / 100))"
    using breakdown_is_hundredths [OF assms(3) P] by blast
  have 4: "2 * \<bar>(\<Sum>(k, h) \<leftarrow> daily_breakdown s. hundredths (hours_value h)) -
              hundredths (total_hours s)\<bar>
           \<le> int (length (daily_breakdown s)) + 1"
    unfolding T using assms(3) D by (rule breakdown_near_total)
  have 5: "2 * \<bar>(\<Sum>(k, h) \<leftarrow> project_breakdown s. hundredths (hours_value h)) -
              hundredths (total_hours s)\<bar>
           \<le> int (length (project_breakdown s)) + 1"
    unfolding T using assms(3) P by (rule breakdown_near_total)
  show ?thesis using 1 2 3 4 5 by (intro conjI)
qed

theorem breakdown_sums_near_total_witness:
  "plain_keys rt0 entries4 \<and>
   2 * \<bar>(\<Sum>(k, h) \<leftarrow> daily_breakdown summary4. hundredths (hours_value h)) -
        hundredths (total_hours summary4)\<bar> \<le> 5"
proof -
  have "sum_list (map seconds_of entries4) \<le> 2 ^ 51"
    by (simp add: entries4_def seconds_of_def)
  note W = breakdown_sums_near_total [OF summarize_entries4 plain_keys_entries4 this]
  have "2 * \<bar>(\<Sum>(k, h) \<leftarrow> daily_breakdown summary4. hundredths (hours_value h)) -
        hundredths (total_hours summary4)\<bar> \<le> int (length (daily_breakdown summary4)) + 1"
    using W [THEN conjunct2, THEN conjunct2, THEN conjunct2] by (rule conjunct1)
  moreover have "int (length (daily_breakdown summary4)) + 1 = 5" by (simp add: summary4_def)
  ultimately show ?thesis using plain_keys_entries4 by simp
qed

subsection \<open>An entry without a start\<close>

text \<open>
  C6.  An entry without a start makes the aggregation throw: \<open>entry.start.split\<close> is
  evaluated for every entry, and the \<open>TypeError\<close> ends the tool call with an internal
  error.  (The rendering of the daily breakdown does guard the same property, with
  \<open>e.start && e.start.startsWith(date)\<close>.)
\<close>

theorem weekly_missing_start_throws:
  "summarize rt monday sunday (Some (e\<lparr>start := Undefined\<rparr> # es)) =
     Inl (TypeError ''Cannot read properties of undefined (reading 'split')'') \<and>
   call_tool rt0 rm_no_start now0 0 ''toggl_weekly'' (Some Map.empty) c0 =
     (Inl (McpError InternalError ''Cannot read properties of undefined (reading 'split')''),
      \<lparr>workspaceId = None,
       sent = [GetTimeEntries ''2024-01-01T00:00:00.000Z'' ''2024-01-07T23:59:59.999Z'']\<rparr>)"
proof -
  have 1: "summarize rt monday sunday (Some (e\<lparr>start := Undefined\<rparr> # es)) =
     Inl (TypeError ''Cannot read properties of undefined (reading 'split')'')" for rt monday sunday
    by (simp add: summarize_def)
  have 2: "summarize rt monday sunday (Some [e_no_start]) =
     Inl (TypeError ''Cannot read properties of undefined (reading 'split')'')" for rt monday sunday
    by (simp add: summarize_def e_no_start_def)
  have 3: "getWeeklyEntries rt0 rm_no_start now0 0 c0 =
     (Inl (TypeError ''Cannot read properties of undefined (reading 'split')''),
      \<lparr>workspaceId = None,
       sent = [GetTimeEntries ''2024-01-01T00:00:00.000Z'' ''2024-01-07T23:59:59.999Z'']\<rparr>)"
    by (simp add: getWeeklyEntries_def window_now0 getEntriesForDateRange_def await_def api_def
        result_def throw_def 2 rm_no_start_def rm0_def c0_def iso_monday0 iso_sunday0)
  have "toggl_weekly rt0 rm_no_start now0 (Some Map.empty) c0 =
     (Inl (TypeError ''Cannot read properties of undefined (reading 'split')''),
      \<lparr>workspaceId = None,
       sent = [GetTimeEntries ''2024-01-01T00:00:00.000Z'' ''2024-01-07T23:59:59.999Z'']\<rparr>)"
    by (simp add: toggl_weekly_def WeeklyEntriesSchema_parse_def await_def 3)
  then have "call_tool rt0 rm_no_start now0 0 ''toggl_weekly'' (Some Map.empty) c0 =
     (Inl (McpError InternalError ''Cannot read properties of undefined (reading 'split')''),
      \<lparr>workspaceId = None,
       sent = [GetTimeEntries ''2024-01-01T00:00:00.000Z'' ''2024-01-07T23:59:59.999Z'']\<rparr>)"
    by (simp add: call_tool_def message_or_default_def)
  then show ?thesis using 1 by simp
qed
section \<open>Rendering a duration\<close>

lemma hours_minutes:
  assumes "0 \<le> d" and "d < 2 ^ 53"
  shows "floor_div_num (Num d) 3600 = Num (d div 3600) \<and>
         floor_div_num (rem_num (Num d) 3600) 60 = Num (d mod 3600 div 60)"
proof -
  have h: "Math_floor (fdiv (of_int d) (of_int 3600)) = d div 3600"
    using assms by (intro floor_fdiv) simp_all
  have r: "js_rem d 3600 = d mod 3600"
    using assms(1) by (cases "d = 0") (simp_all add: js_rem_def)
  have "0 \<le> d mod 3600" "d mod 3600 < 2 ^ 53" by simp_all
  then have m: "Math_floor (fdiv (of_int (d mod 3600)) (of_int 60)) = d mod 3600 div 60"
    by (intro floor_fdiv) simp_all
  show ?thesis using h m r by simp
qed

lemma hm_render:
  assumes "0 \<le> d" and "d < 2 ^ 53"
  shows "show_number rt (floor_div_num (Num d) 3600) @ ''h '' @
         show_number rt (floor_div_num (rem_num (Num d) 3600) 60) @ ''m'' = hm_text rt d"
  using hours_minutes [OF assms] by (simp add: hm_text_def)

lemma seconds_truncated:
  fixes d :: int
  shows "(d div 3600) * 3600 + (d mod 3600 div 60) * 60 \<le> d \<and>
         d < (d div 3600) * 3600 + (d mod 3600 div 60 + 1) * 60"
proof -
  define q where "q = d div 3600"
  define r where "r = d mod 3600"
  define m where "m = r div 60"
  define t where "t = r mod 60"
  have dq: "d = q * 3600 + r" by (simp add: q_def r_def)
  have rm: "r = m * 60 + t" by (simp add: m_def t_def)
  have t: "0 \<le> t" "t < 60" by (simp_all add: t_def)
  have 1: "q * 3600 + m * 60 \<le> d" using dq rm t by linarith
  have "d < q * 3600 + (m * 60 + 60)" using dq rm t by linarith
  then have 2: "d < q * 3600 + (m + 1) * 60" by (simp only: distrib_right mult_1)
  show ?thesis using 1 2 by (simp add: q_def r_def m_def)
qed

lemma elem_le_sum_list:
  fixes xs :: "int list"
  assumes "\<forall>x \<in> set xs. 0 \<le> x" and "y \<in> set xs"
  shows "y \<le> sum_list xs"
  using assms
proof (induction xs)
  case Nil
  then show ?case by simp
next
  case (Cons x xs)
  have "0 \<le> sum_list xs" using Cons.prems(1) by (intro sum_list_nonneg) simp
  then show ?case using Cons by (cases "y = x") (auto intro: add_increasing)
qed

lemma abs_num_duration:
  "duration e \<noteq> Undefined \<Longrightarrow> abs_num (to_number (duration e)) = Num (abs_seconds e)"
  by (cases "duration e") (simp_all add: abs_seconds_def)

lemma toggl_stop_text:
  assumes "stopTimer rm c = (Inr entry, c')" and "abs_num (to_number (duration entry)) = Num d"
    and "0 \<le> d" and "d < 2 ^ 53"
  shows "toggl_stop rt rm c =
           (Inr (''Stopped timer: '' @ dq @ template (description entry) @ dq @ nl @
                 ''Duration: '' @ hm_text rt d), c')"
  using assms(1,2) hm_render [OF assms(3,4), of rt]
  by (simp add: toggl_stop_def await_def return_def Let_def)

lemma toggl_current_text:
  assumes "getCurrentEntry rm c = (Inr (Some cur), c')"
    and "abs_num (add_num (to_number (duration cur))
                          (Num (Math_floor (fdiv (of_int now_ms) 1000)))) = Num d"
    and "0 \<le> d" and "d < 2 ^ 53"
  shows "toggl_current rt rm now_ms c =
           (Inr (''Currently tracking: '' @ dq @ template (description cur) @ dq @ nl @
                 ''Running for: '' @ hm_text rt d), c')"
  using assms(1,2) hm_render [OF assms(3,4), of rt]
  by (simp add: toggl_current_def await_def return_def Let_def)

lemma toggl_today_text:
  assumes f: "getTodayEntries rt rm now c = (Inr (Some es), c')" and ne: "es \<noteq> []"
    and u: "Undefined \<notin> duration ` set es" and b: "sum_list (map abs_seconds es) < 2 ^ 53"
  shows "toggl_today rt rm now c =
           (Inr (''Today's entries:'' @ nl @
                 join nl (map (\<lambda>e. ''- '' @ or_else (description e) ''No description'' @
                                     '' ('' @ hm_text rt (abs_seconds e) @ '')'') es) @
                 nl @ nl @ ''Total: '' @ hm_text rt (sum_list (map abs_seconds es))), c')"
proof -
  have tot: "today_total es = Num (sum_list (map abs_seconds es))"
    using foldl_total_Num [of 0 es] u b by (simp add: today_total_def)
  have s0: "0 \<le> sum_list (map abs_seconds es)"
    by (auto intro!: sum_list_nonneg simp: abs_seconds_nonneg)
  have R: "floor_div_num (abs_num (to_number (duration e))) 3600 = Num (abs_seconds e div 3600) \<and>
           floor_div_num (rem_num (abs_num (to_number (duration e))) 3600) 60 =
             Num (abs_seconds e mod 3600 div 60)" if e: "e \<in> set es" for e
  proof -
    have d: "abs_num (to_number (duration e)) = Num (abs_seconds e)"
      using u e by (intro abs_num_duration) (auto simp: image_iff)
    have "abs_seconds e \<le> sum_list (map abs_seconds es)"
      using e by (intro elem_le_sum_list) (auto simp: abs_seconds_nonneg)
    then have "abs_seconds e < 2 ^ 53" using b by simp
    from hours_minutes [OF abs_seconds_nonneg this] show ?thesis by (simp only: d)
  qed
  have R1: "e \<in> set es \<Longrightarrow>
      floor_div_num (abs_num (to_number (duration e))) 3600 = Num (abs_seconds e div 3600)" for e
    using R by blast
  have R2: "e \<in> set es \<Longrightarrow>
      floor_div_num (rem_num (abs_num (to_number (duration e))) 3600) 60 =
        Num (abs_seconds e mod 3600 div 60)" for e
    using R by blast
  have T: "Math_floor (fdiv (of_int (sum_list (map abs_seconds es))) 3600) =
             sum_list (map abs_seconds es) div 3600"
    "Math_floor (fdiv (of_int (js_rem (sum_list (map abs_seconds es)) 3600)) 60) =
             sum_list (map abs_seconds es) mod 3600 div 60"
    using hours_minutes [OF s0 b] by simp_all
  show ?thesis
    using f ne
    by (simp add: toggl_today_def await_def return_def Let_def tot R1 R2 T hm_text_def
        cong: map_cong)
qed

text \<open>
  C10.  The stop, current and today tools render a duration \<open>d\<close> as \<open>{h}h {m}m\<close> with
  \<open>h = Math.floor(d / 3600)\<close> and \<open>m = Math.floor((d % 3600) / 60)\<close>.  For a non-negative
  whole number of seconds \<open>d\<close> (a JavaScript number holds it exactly below \<open>2 ^ 53\<close>) these
  are the integer quotients, so the seconds are cut off and never rounded up; and the
  texts of the three tools show exactly these two numbers, for the stopped entry, for the
  running entry, and for every entry of today and their total.
\<close>

theorem duration_rendering:
  assumes "0 \<le> d" and "d < 2 ^ 53"
  shows "floor_div_num (Num d) 3600 = Num (d div 3600) \<and>
         floor_div_num (rem_num (Num d) 3600) 60 = Num (d mod 3600 div 60) \<and>
         (d div 3600) * 3600 + (d mod 3600 div 60) * 60 \<le> d \<and>
         d < (d div 3600) * 3600 + (d mod 3600 div 60 + 1) * 60 \<and>
         (stopTimer rm c = (Inr entry, c') \<and> abs_num (to_number (duration entry)) = Num d \<longrightarrow>
            toggl_stop rt rm c =
              (Inr (''Stopped timer: '' @ dq @ template (description entry) @ dq @ nl @
                    ''Duration: '' @ hm_text rt d), c')) \<and>
         (getCurrentEntry rm c = (Inr (Some cur), c') \<and>
          abs_num (add_num (to_number (duration cur))
                           (Num (Math_floor (fdiv (of_int now_ms) 1000)))) = Num d \<longrightarrow>
            toggl_current rt rm now_ms c =
              (Inr (''Currently tracking: '' @ dq @ template (description cur) @ dq @ nl @
                    ''Running for: '' @ hm_text rt d), c')) \<and>
         (getTodayEntries rt rm now c = (Inr (Some es), c') \<and> es \<noteq> [] \<and>
          Undefined \<notin> duration ` set es \<and> sum_list (map abs_seconds es) = d \<longrightarrow>
            toggl_today rt rm now c =
              (Inr (''Today's entries:'' @ nl @
                    join nl (map (\<lambda>e. ''- '' @ or_else (description e) ''No description'' @
                                        '' ('' @ hm_text rt (abs_seconds e) @ '')'') es) @
                    nl @ nl @ ''Total: '' @ hm_text rt d), c'))"
proof -
  note hours_minutes [OF assms] seconds_truncated [of d]
  moreover have "stopTimer rm c = (Inr entry, c') \<and> abs_num (to_number (duration entry)) = Num d \<longrightarrow>
            toggl_stop rt rm c =
              (Inr (''Stopped timer: '' @ dq @ template (description entry) @ dq @ nl @
                    ''Duration: '' @ hm_text rt d), c')"
    using toggl_stop_text [OF _ _ assms] by blast
  moreover have "getCurrentEntry rm c = (Inr (Some cur), c') \<and>
          abs_num (add_num (to_number (duration cur))
                           (Num (Math_floor (fdiv (of_int now_ms) 1000)))) = Num d \<longrightarrow>
            toggl_current rt rm now_ms c =
              (Inr (''Currently tracking: '' @ dq @ template (description cur) @ dq @ nl @
                    ''Running for: '' @ hm_text rt d), c')"
    using toggl_current_text [OF _ _ assms] by blast
  moreover have "getTodayEntries rt rm now c = (Inr (Some es), c') \<and> es \<noteq> [] \<and>
          Undefined \<notin> duration ` set es \<and> sum_list (map abs_seconds es) = d \<longrightarrow>
            toggl_today rt rm now c =
              (Inr (''Today's entries:'' @ nl @
                    join nl (map (\<lambda>e. ''- '' @ or_else (description e) ''No description'' @
                                        '' ('' @ hm_text rt (abs_seconds e) @ '')'') es) @
                    nl @ nl @ ''Total: '' @ hm_text rt d), c')"
    using toggl_today_text [of rt rm now c es c'] assms(2) by blast
  ultimately show ?thesis by blast
qed

theorem duration_rendering_witness:
  "floor_div_num (Num 3725) 3600 = Num 1 \<and>
   floor_div_num (rem_num (Num 3725) 3600) 60 = Num 2 \<and>
   toggl_stop rt0 rm_stop c0 =
     (Inr (''Stopped timer: '' @ dq @ ''write report'' @ dq @ nl @
           ''Duration: '' @ show_num rt0 1 @ ''h '' @ show_num rt0 2 @ ''m''),
      \<lparr>workspaceId = Some 7, sent = [GetCurrentTimeEntry, GetMe, PatchStop 7 1]\<rparr>)"
proof -
  have s: "stopTimer rm_stop c0 =
      (Inr e_stopped, \<lparr>workspaceId = Some 7, sent = [GetCurrentTimeEntry, GetMe, PatchStop 7 1]\<rparr>)"
    by (simp add: stopTimer_def getCurrentEntry_def getWorkspaceId_def await_def api_def
        rm_stop_def rm0_def c0_def e_running_def)
  have d: "abs_num (to_number (duration e_stopped)) = Num 3725"
    by (simp add: e_stopped_def)
  show ?thesis
    using duration_rendering [of 3725 rm_stop c0 e_stopped
        "\<lparr>workspaceId = Some 7, sent = [GetCurrentTimeEntry, GetMe, PatchStop 7 1]\<rparr>" rt0] s d
    by (simp add: hm_text_def e_stopped_def)
qed

end
